theory Spec2Isabelle
  imports Complex_Main "HOL-Library.AList"
begin

section \<open>Model spectra with removable emission lines (glass\_niriss.grism.specgen)\<close>

text \<open>
  The module extends the model galaxy of bagpipes: \<^verbatim>\<open>update\<close> recomputes the
  output attributes of an instance from a dictionary of model components, and
  \<^verbatim>\<open>_calculate_full_spectrum\<close> synthesises the full spectrum on the internal
  wavelength grid. The embedding below follows the two methods and the two module level
  functions \<^verbatim>\<open>H\<close> and \<^verbatim>\<open>addAbs\<close> statement by statement.

  Conventions of the embedding.
  \<^item> A float64 is a \<^typ>\<open>real\<close>: infinities and NaN are not represented, and a division
    by zero has HOL's value 0 where numpy yields inf or nan. Arithmetic is exact, except in
    the block that removes a line from the birth-cloud spectrum: whether that store changes
    the value depends on rounding, so its operations are rounded by \<open>float64\<close>.
  \<^item> A one dimensional numpy array is a list of reals. The arrays handed over by the
    bagpipes collaborators are sampled on the grid they belong to, so element-wise
    operations are written with \<open>map2\<close>.
  \<^item> A Python exception is the left injection of a sum; only the class of the exception
    is kept.
  \<^item> The bagpipes objects an instance owns (star-formation history, stellar, nebular, dust,
    IGM and AGN models, the photometry, resampling and index routines, the line table of
    \<^verbatim>\<open>config\<close> and the distance table of \<^verbatim>\<open>utils\<close>) are not part of the
    module; they enter as fields of the instance record. A collaborator is a function:
    what it returns is a fresh array that depends on its arguments alone, and the state
    of an object after its own \<^verbatim>\<open>update\<close> depends on the dictionary it was updated with.
\<close>

subsection \<open>Values, dictionaries and exceptions\<close>

type_synonym arr = "real list"

type_synonym grid = "real list list"

datatype error = KeyError | TypeError | ValueError | IndexError | AttributeError

text \<open>A value of a model-components dictionary: a number, a string or a nested dictionary.
  A dictionary is an association list in insertion order.\<close>

datatype pval = Num real | Str string | Dict "(string \<times> pval) list"

type_synonym params = "(string \<times> pval) list"

definition bindE :: "error + 'a \<Rightarrow> ('a \<Rightarrow> error + 'b) \<Rightarrow> error + 'b" where
  "bindE m f = (case m of Inl e \<Rightarrow> Inl e | Inr v \<Rightarrow> f v)"

text \<open>\<^verbatim>\<open>d[k]\<close> on a dictionary.\<close>

definition getitem :: "params \<Rightarrow> string \<Rightarrow> error + pval" where
  "getitem d k = (case map_of d k of None \<Rightarrow> Inl KeyError | Some v \<Rightarrow> Inr v)"

text \<open>\<^verbatim>\<open>v[k]\<close> on a value: a number or a string cannot be subscripted with a string.\<close>

definition subscript :: "pval \<Rightarrow> string \<Rightarrow> error + pval" where
  "subscript v k = (case v of Dict d \<Rightarrow> getitem d k | _ \<Rightarrow> Inl TypeError)"

text \<open>\<^verbatim>\<open>k in list(v)\<close> for one of the multi-character keys the module asks for:
  a string lists its characters, none of which is the key; a number cannot be listed.\<close>

definition in_list :: "string \<Rightarrow> pval \<Rightarrow> error + bool" where
  "in_list k v = (case v of Dict d \<Rightarrow> Inr (k \<in> set (map fst d))
                   | Str s \<Rightarrow> Inr False
                   | Num r \<Rightarrow> Inl TypeError)"

text \<open>A value used in arithmetic must be a number.\<close>

definition as_num :: "pval \<Rightarrow> error + real" where
  "as_num v = (case v of Num r \<Rightarrow> Inr r | _ \<Rightarrow> Inl TypeError)"

definition get_num :: "pval \<Rightarrow> string \<Rightarrow> error + real" where
  "get_num v k = bindE (subscript v k) as_num"

subsection \<open>The numpy routines the module calls\<close>

text \<open>\<^verbatim>\<open>np.trapz(y, x=x)\<close>: the composite trapezoidal rule.\<close>

fun trapz :: "arr \<Rightarrow> arr \<Rightarrow> real" where
  "trapz (y0 # y1 # ys) (x0 # x1 # xs) =
     (x1 - x0) * (y0 + y1) / 2 + trapz (y1 # ys) (x1 # xs)"
| "trapz ys xs = 0"

text \<open>\<^verbatim>\<open>a.argmin()\<close> over the flattened array: the first index of the minimum; an empty
  array raises ValueError.\<close>

fun argmin_from :: "nat \<Rightarrow> real \<Rightarrow> nat \<Rightarrow> arr \<Rightarrow> nat" where
  "argmin_from best bv i [] = best"
| "argmin_from best bv i (x # xs) =
     (if x < bv then argmin_from i x (Suc i) xs else argmin_from best bv (Suc i) xs)"

definition argmin :: "arr \<Rightarrow> error + nat" where
  "argmin xs = (case xs of [] \<Rightarrow> Inl ValueError | x # r \<Rightarrow> Inr (argmin_from 0 x 1 r))"

text \<open>\<^verbatim>\<open>np.interp(x, xp, fp, left=left, right=right)\<close> for increasing sample points:
  linear between neighbouring samples, \<open>left\<close> below the first and \<open>right\<close> above the
  last; empty sample points, or sample arrays of different lengths, raise ValueError.\<close>

fun interp_between :: "real \<Rightarrow> arr \<Rightarrow> arr \<Rightarrow> real" where
  "interp_between x (x0 # x1 # xs) (f0 # f1 # fs) =
     (if x < x1 \<or> xs = [] then f0 + (f1 - f0) / (x1 - x0) * (x - x0)
      else interp_between x (x1 # xs) (f1 # fs))"
| "interp_between x xs fs = (case fs of [] \<Rightarrow> 0 | f0 # r \<Rightarrow> f0)"

definition np_interp :: "real \<Rightarrow> arr \<Rightarrow> arr \<Rightarrow> real \<Rightarrow> real \<Rightarrow> error + real" where
  "np_interp x xp fp left right =
     (if xp = [] \<or> length xp \<noteq> length fp then Inl ValueError
      else if x < hd xp then Inr left
      else if last xp < x then Inr right
      else if x = last xp then Inr (last fp)
      else Inr (interp_between x xp fp))"

text \<open>The same call with an array of abscissae.\<close>

fun np_interp_arr :: "arr \<Rightarrow> arr \<Rightarrow> arr \<Rightarrow> real \<Rightarrow> real \<Rightarrow> error + arr" where
  "np_interp_arr [] xp fp left right =
     (if xp = [] \<or> length xp \<noteq> length fp then Inl ValueError else Inr [])"
| "np_interp_arr (x # xs) xp fp left right =
     bindE (np_interp x xp fp left right) (\<lambda>v.
     bindE (np_interp_arr xs xp fp left right) (\<lambda>vs. Inr (v # vs)))"

subsection \<open>Rounding to float64\<close>

text \<open>The nearest integer, a tie going to the even one.\<close>

definition round_even :: "real \<Rightarrow> int" where
  "round_even x = (if frac x = 1 / 2 \<and> even \<lfloor>x\<rfloor> then \<lfloor>x\<rfloor> else \<lfloor>x + 1 / 2\<rfloor>)"

text \<open>The distance between two neighbouring float64 numbers around \<open>x\<close>, for \<open>x\<close> other
  than 0: 52 binary places below the leading bit of \<open>x\<close>, and \<open>2 powi (- 1074)\<close> for every
  \<open>x\<close> below the normal numbers, which start at \<open>2 powi (- 1022)\<close>.\<close>

definition ulp :: "real \<Rightarrow> real" where
  "ulp x = 2 powi (max \<lfloor>log 2 \<bar>x\<bar>\<rfloor> (- 1022) - 52)"

text \<open>The result of a float64 operation whose exact result is \<open>x\<close>: the nearest multiple of
  \<open>ulp x\<close>, a tie going to the even multiple (the rounding mode numpy runs in). Results
  below the normal numbers are rounded as subnormal numbers are. A result beyond the largest
  float64, which numpy turns into inf, is not represented.\<close>

definition float64 :: "real \<Rightarrow> real" where
  "float64 x = (if x = 0 then 0 else sgn x * (of_int (round_even (\<bar>x\<bar> / ulp x)) * ulp x))"

subsection \<open>The Voigt-Hjerting profile and the absorption of a foreground source\<close>

text \<open>\<^verbatim>\<open>H(a, x)\<close> at one abscissa; the source applies it to an array element by element.\<close>

definition H :: "real \<Rightarrow> real \<Rightarrow> real" where
  "H a x =
     (let P = x ^ 2;
          H0 = exp (- (x ^ 2));
          Q = 1.5 * (x powi (- 2))
      in H0 - a / sqrt pi / P * (H0 ^ 2 * (4.0 * P ^ 2 + 7.0 * P + 4.0 + Q) - Q - 1.0))"

text \<open>\<^verbatim>\<open>addAbs(wl_mod, t, zabs)\<close>: the transmission \<open>exp (- tau)\<close> at each wavelength of
  \<open>wl_mod\<close>, which the function divides by \<open>zabs + 1\<close> to reach the absorber's frame.\<close>

definition addAbs :: "arr \<Rightarrow> real \<Rightarrow> real \<Rightarrow> arr" where
  "addAbs wl_mod t zabs =
     (let m_e = 9.1095 / 10 ^ 28;
          e = 4.8032 / 10 ^ 10;
          c = 2.998 * 10 ^ 10;
          lamb = 1215.67;
          f = 0.416;
          gamma = 6.265 * 10 ^ 8;
          broad = 1;
          C_a = sqrt pi * e ^ 2 * f * lamb * (1 / 10 ^ 8) / m_e / c / broad;
          a = lamb * (1.0 / 10 ^ 8) * gamma / (4.0 * pi * broad);
          dl_D = broad / c * lamb;
          x = map (\<lambda>w. (w / (zabs + 1.0) - lamb) / dl_D + 0.01) wl_mod;
          tau = map (\<lambda>xi. C_a * t * H a xi) x
      in map (\<lambda>ti. exp (- ti)) tau)"

subsection \<open>The instance and its output attributes\<close>

text \<open>The objects of bagpipes after their own \<^verbatim>\<open>update\<close>: a star-formation history shows
  whether it is unphysical and the grid of its chemical enrichment history; a dust
  attenuation model shows its curves for the continuum and for the lines.\<close>

record sfh_obj =
  unphysical :: bool
  ceh_grid :: grid

record dust_obj =
  A_cont :: arr
  A_line :: arr

record nebular_obj =
  nebular_line_fluxes :: "grid \<Rightarrow> real \<Rightarrow> real \<Rightarrow> arr"
  nebular_spectrum :: "grid \<Rightarrow> real \<Rightarrow> real \<Rightarrow> arr"

record index_def =
  ix_name :: string
  ix_bands :: "real list"

text \<open>What an instance is built with. \<open>nebular\<close>, \<open>dust_atten\<close> and \<open>agn\<close> are
  \<open>None\<close> where the attribute of the instance is \<^verbatim>\<open>False\<close>; \<open>dust_atten\<close> and
  \<open>agn\<close> map the sub-dictionary they are updated with to the object's state
  (for the AGN model: its spectrum).\<close>

record galaxy =
  wavelengths :: arr
  spec_wavs :: "arr option"
  filt_list :: "string list option"
  index_list :: "index_def list option"
  sfh_update :: "params \<Rightarrow> sfh_obj"
  neb_sfh_update :: "params \<Rightarrow> sfh_obj"
  stellar_spectrum :: "grid \<Rightarrow> real \<Rightarrow> arr \<times> arr"
  nebular :: "nebular_obj option"
  dust_atten :: "(pval \<Rightarrow> dust_obj) option"
  dust_emission_spectrum :: "real \<Rightarrow> real \<Rightarrow> real \<Rightarrow> arr"
  igm_trans :: "real \<Rightarrow> arr"
  agn :: "(pval \<Rightarrow> arr) option"
  calculate_spectrum :: "params \<Rightarrow> arr \<Rightarrow> (real \<times> real) list"
  calculate_photometry :: "real \<Rightarrow> arr \<Rightarrow> arr"
  calculate_uvj_mags :: "arr \<Rightarrow> arr"
  measure_index :: "index_def \<Rightarrow> (real \<times> real) list \<Rightarrow> real \<Rightarrow> real"
  line_names :: "string list"
  line_wavs :: arr
  z_array :: arr
  ldist_at_z :: arr

text \<open>The attributes the two methods write; \<open>None\<close> is an attribute that does not exist
  yet. \<open>self_spectrum\<close> is the two column array of output wavelengths and fluxes.\<close>

record attrs =
  self_model_comp :: "params option"
  self_spectrum_full :: "arr option"
  self_spectrum_bc :: "arr option"
  self_line_fluxes :: "(string \<times> real) list option"
  self_lum_flux :: "real option"
  self_spectrum :: "(real \<times> real) list option"
  self_photometry :: "arr option"
  self_uvj :: "arr option"
  self_index_names :: "string list option"
  self_indices :: "arr option"

text \<open>Reading an attribute that does not exist raises AttributeError.\<close>

definition attr :: "'a option \<Rightarrow> error + 'a" where
  "attr a = (case a of None \<Rightarrow> Inl AttributeError | Some v \<Rightarrow> Inr v)"

subsection \<open>Removing emission lines from the birth-cloud spectrum\<close>

text \<open>\<^verbatim>\<open>np.argwhere(config.line_names == rm)\<close>: the indices of the table that hold the
  name, one row each.\<close>

definition argwhere :: "string list \<Rightarrow> string \<Rightarrow> nat list" where
  "argwhere names rm = filter (\<lambda>i. names ! i = rm) [0..<length names]"

text \<open>\<^verbatim>\<open>a[idx]\<close> with an index array: IndexError when an index is out of bounds.\<close>

definition take_idx :: "arr \<Rightarrow> nat list \<Rightarrow> error + arr" where
  "take_idx a idx =
     (if list_all (\<lambda>i. i < length a) idx then Inr (map (\<lambda>i. a ! i) idx) else Inl IndexError)"

text \<open>\<^verbatim>\<open>v.get(k, 0)\<close>, read as a number.\<close>

definition get_default :: "pval \<Rightarrow> string \<Rightarrow> real \<Rightarrow> error + real" where
  "get_default v k dflt =
     (case v of
        Dict d \<Rightarrow> (case map_of d k of None \<Rightarrow> Inr dflt | Some x \<Rightarrow> as_num x)
      | _ \<Rightarrow> Inl AttributeError)"

text \<open>The body of the loop over \<^verbatim>\<open>rm_line\<close>. The index array has one row per occurrence of
  the name, so the array of distances has one row of grid length per occurrence and
  \<^verbatim>\<open>argmin\<close> searches its flattening; without an occurrence that array is empty. Past the
  edge test the source reads \<^verbatim>\<open>wavelengths[ind + 1]\<close> and stores one number at
  \<^verbatim>\<open>spectrum_bc[ind]\<close>: more than one flux cannot be stored there (a one by one array is
  stored as its element, as the numpy releases do that still convert such an array to a
  number). The operations of that block,
  the difference and the halving for \<^verbatim>\<open>width\<close>, the quotient and the in-place
  subtraction, are float64 operations.\<close>

definition remove_line ::
  "arr \<Rightarrow> string list \<Rightarrow> arr \<Rightarrow> arr \<Rightarrow> pval \<Rightarrow> string \<Rightarrow> arr \<Rightarrow> error + arr" where
  "remove_line wavs names lwavs em_lines neb rm spectrum_bc =
     (let rm_line_idx = argwhere names rm in
      bindE (take_idx lwavs rm_line_idx) (\<lambda>lw.
      bindE (get_default neb ''velshift'' 0) (\<lambda>velshift.
      let line_wav_shift = map (\<lambda>l. l * (1 + velshift / (3 * 10 ^ 5))) lw in
      bindE (argmin (concat (map (\<lambda>sh. map (\<lambda>w. \<bar>w - sh\<bar>) wavs) line_wav_shift))) (\<lambda>ind.
      if ind \<noteq> 0 \<and> int ind \<noteq> int (length wavs) - 1 then
        (if ind + 1 < length wavs \<and> ind < length spectrum_bc then
           let width = float64 (float64 (wavs ! (ind + 1) - wavs ! (ind - 1)) / 2) in
           bindE (take_idx em_lines rm_line_idx) (\<lambda>fl.
             case fl of
               [flux] \<Rightarrow>
                 Inr (spectrum_bc[ind := float64 (spectrum_bc ! ind - float64 (flux / width))])
             | _ \<Rightarrow> Inl ValueError)
         else Inl IndexError)
      else Inr spectrum_bc))))"

fun remove_lines ::
  "arr \<Rightarrow> string list \<Rightarrow> arr \<Rightarrow> arr \<Rightarrow> pval \<Rightarrow> string list \<Rightarrow> arr \<Rightarrow> error + arr" where
  "remove_lines wavs names lwavs em_lines neb [] spectrum_bc = Inr spectrum_bc"
| "remove_lines wavs names lwavs em_lines neb (rm # rms) spectrum_bc =
     bindE (remove_line wavs names lwavs em_lines neb rm spectrum_bc)
       (remove_lines wavs names lwavs em_lines neb rms)"

subsection \<open>The full spectrum\<close>

text \<open>The age of the birth clouds: 0.01 unless the model components give \<^verbatim>\<open>t_bc\<close>.\<close>

definition get_t_bc :: "params \<Rightarrow> error + real" where
  "get_t_bc model_comp =
     (if ''t_bc'' \<in> set (map fst model_comp) then bindE (getitem model_comp ''t_bc'') as_num
      else Inr 0.01)"

text \<open>The loop over the deep copy of the model components: every entry that is a
  dictionary gets the nebular metallicity stored under \<^verbatim>\<open>metallicity\<close>.\<close>

definition set_metallicity :: "pval \<Rightarrow> params \<Rightarrow> params" where
  "set_metallicity nebular_metallicity neb_comp =
     map (\<lambda>(comp, v).
            case v of
              Dict d \<Rightarrow> (comp, Dict (AList.update ''metallicity'' nebular_metallicity d))
            | _ \<Rightarrow> (comp, v)) neb_comp"

text \<open>The grid the nebular model is evaluated on.\<close>

definition nebular_grid :: "galaxy \<Rightarrow> sfh_obj \<Rightarrow> params \<Rightarrow> pval \<Rightarrow> error + grid" where
  "nebular_grid I sfh model_comp neb =
     bindE (in_list ''metallicity'' neb) (\<lambda>has_metallicity.
       if has_metallicity then
         bindE (subscript neb ''metallicity'') (\<lambda>nebular_metallicity.
           let neb_comp = set_metallicity nebular_metallicity model_comp
           in Inr (ceh_grid (neb_sfh_update I neb_comp)))
       else Inr (ceh_grid sfh))"

text \<open>\<^verbatim>\<open>spectrum_bc[self.wavelengths < 912.0] = 0.0\<close>\<close>

definition zero_below_lyman :: "arr \<Rightarrow> arr \<Rightarrow> arr" where
  "zero_below_lyman wavs spectrum_bc = map2 (\<lambda>w v. if w < 912.0 then 0.0 else v) wavs spectrum_bc"

text \<open>The nebular block: line fluxes, the nebular spectrum added to the birth-cloud
  spectrum, and the removal of the requested lines.\<close>

definition nebular_stage ::
  "galaxy \<Rightarrow> sfh_obj \<Rightarrow> params \<Rightarrow> real \<Rightarrow> bool \<Rightarrow> string list option \<Rightarrow> arr \<Rightarrow> arr
     \<Rightarrow> error + (arr \<times> arr)" where
  "nebular_stage I sfh model_comp t_bc cont_only rm_line spectrum_bc em_lines =
     (case nebular I of
        None \<Rightarrow> Inr (spectrum_bc, em_lines)
      | Some neb_model \<Rightarrow>
          if cont_only then Inr (spectrum_bc, em_lines)
          else
            bindE (getitem model_comp ''nebular'') (\<lambda>neb.
            bindE (nebular_grid I sfh model_comp neb) (\<lambda>grid.
            bindE (get_num neb ''logU'') (\<lambda>logU.
            let em_lines = map2 (+) em_lines (nebular_line_fluxes neb_model grid t_bc logU);
                spectrum_bc = zero_below_lyman (wavelengths I) spectrum_bc;
                spectrum_bc = map2 (+) spectrum_bc (nebular_spectrum neb_model grid t_bc logU)
            in case rm_line of
                 None \<Rightarrow> Inr (spectrum_bc, em_lines)
               | Some rms \<Rightarrow>
                   bindE (remove_lines (wavelengths I) (line_names I) (line_wavs I)
                            em_lines neb rms spectrum_bc)
                     (\<lambda>spectrum_bc. Inr (spectrum_bc, em_lines))))))"

text \<open>Attenuation by the birth clouds: the result is the birth-cloud spectrum, the line
  fluxes and the flux lost so far (\<^verbatim>\<open>dust_flux\<close>).\<close>

definition bc_dust_stage ::
  "dust_obj option \<Rightarrow> arr \<Rightarrow> params \<Rightarrow> arr \<Rightarrow> arr \<Rightarrow> error + (arr \<times> arr \<times> real)" where
  "bc_dust_stage da wavs model_comp spectrum_bc em_lines =
     (case da of
        None \<Rightarrow> Inr (spectrum_bc, em_lines, 0.0)
      | Some dust_model \<Rightarrow>
          let dust_flux = 0.0; eta = 1.0 in
          bindE (getitem model_comp ''dust'') (\<lambda>dust.
          bindE (in_list ''eta'' dust) (\<lambda>has_eta.
          bindE (if has_eta then
                   bindE (get_num dust ''eta'') (\<lambda>eta.
                   bindE (get_num dust ''Av'') (\<lambda>Av.
                   let bc_Av_reduced = (eta - 1.0) * Av;
                       bc_trans_red =
                         map (\<lambda>A. 10 powr (- bc_Av_reduced * A / 2.5)) (A_cont dust_model);
                       spectrum_bc_dust = map2 (*) spectrum_bc bc_trans_red;
                       dust_flux =
                         dust_flux + trapz (map2 (-) spectrum_bc spectrum_bc_dust) wavs
                   in Inr (eta, spectrum_bc_dust, dust_flux)))
                 else Inr (eta, spectrum_bc, dust_flux)) (\<lambda>(eta, spectrum_bc, dust_flux).
          bindE (get_num dust ''Av'') (\<lambda>Av.
          let bc_Av = eta * Av;
              em_lines =
                map2 (\<lambda>l A. l * 10 powr (- bc_Av * A / 2.5)) em_lines (A_line dust_model)
          in Inr (spectrum_bc, em_lines, dust_flux))))))"

text \<open>A parameter of the dust emission with its default.\<close>

definition dust_param :: "pval \<Rightarrow> string \<Rightarrow> real \<Rightarrow> error + real" where
  "dust_param dust k dflt =
     bindE (in_list k dust) (\<lambda>present. if present then get_num dust k else Inr dflt)"

text \<open>Attenuation by the diffuse ISM and the dust emission that re-radiates the lost
  flux. The stage writes the attribute \<^verbatim>\<open>spectrum_bc\<close>.\<close>

definition ism_dust_stage ::
  "galaxy \<Rightarrow> dust_obj option \<Rightarrow> attrs \<Rightarrow> params \<Rightarrow> arr \<Rightarrow> arr \<Rightarrow> real
     \<Rightarrow> error + (arr \<times> attrs)" where
  "ism_dust_stage I da s model_comp spectrum spectrum_bc dust_flux =
     (case da of
        None \<Rightarrow> Inr (spectrum, s)
      | Some dust_model \<Rightarrow>
          bindE (getitem model_comp ''dust'') (\<lambda>dust.
          bindE (get_num dust ''Av'') (\<lambda>Av.
          let trans = map (\<lambda>A. 10 powr (- Av * A / 2.5)) (A_cont dust_model);
              dust_spectrum = map2 (*) spectrum trans;
              dust_flux = dust_flux + trapz (map2 (-) spectrum dust_spectrum) (wavelengths I);
              spectrum = dust_spectrum;
              s = s\<lparr>self_spectrum_bc := Some (map2 (*) spectrum_bc trans)\<rparr>
          in
          bindE (dust_param dust ''qpah'' 2.0) (\<lambda>qpah.
          bindE (dust_param dust ''umin'' 1.0) (\<lambda>umin.
          bindE (dust_param dust ''gamma'' 0.01) (\<lambda>gamma.
          Inr (map2 (+) spectrum
                 (map (\<lambda>v. dust_flux * v) (dust_emission_spectrum I qpah umin gamma)), s)))))))"

text \<open>Transmission of the IGM and of a damped absorber. The source passes
  \<^verbatim>\<open>self.wavelengths * self.model_comp["redshift"]\<close> to \<^verbatim>\<open>addAbs\<close>.\<close>

definition igm_dla_stage ::
  "galaxy \<Rightarrow> dust_obj option \<Rightarrow> attrs \<Rightarrow> params \<Rightarrow> arr \<Rightarrow> error + (arr \<times> attrs)" where
  "igm_dla_stage I da s model_comp spectrum =
     bindE (bindE (getitem model_comp ''redshift'') as_num) (\<lambda>z.
     let spectrum = map2 (*) spectrum (igm_trans I z) in
     bindE (if ''dla'' \<in> set (map fst model_comp) then
              bindE (attr (self_model_comp s)) (\<lambda>self_mc.
              bindE (bindE (getitem self_mc ''redshift'') as_num) (\<lambda>self_z.
              bindE (getitem self_mc ''dla'') (\<lambda>dla.
              bindE (get_num dla ''t'') (\<lambda>t.
              bindE (get_num dla ''zabs'') (\<lambda>zabs.
              Inr (map2 (*) spectrum
                     (addAbs (map (\<lambda>w. w * self_z) (wavelengths I)) t zabs)))))))
            else Inr spectrum) (\<lambda>spectrum.
     bindE (case da of
              None \<Rightarrow> Inr s
            | Some dust_model \<Rightarrow>
                bindE (attr (self_spectrum_bc s)) (\<lambda>bc.
                Inr (s\<lparr>self_spectrum_bc := Some (map2 (*) bc (igm_trans I z))\<rparr>))) (\<lambda>s.
     Inr (spectrum, s))))"

text \<open>An in-place operation on the attribute \<^verbatim>\<open>spectrum_bc\<close>, done when dust
  attenuation is on.\<close>

definition on_spectrum_bc :: "dust_obj option \<Rightarrow> (real \<Rightarrow> real) \<Rightarrow> attrs \<Rightarrow> error + attrs" where
  "on_spectrum_bc da f s =
     (case da of
        None \<Rightarrow> Inr s
      | Some dust_model \<Rightarrow>
          bindE (attr (self_spectrum_bc s)) (\<lambda>bc. Inr (s\<lparr>self_spectrum_bc := Some (map f bc)\<rparr>)))"

text \<open>\<^verbatim>\<open>dict(zip(keys, values))\<close>: a later value of a key replaces the earlier one.\<close>

definition dict_zip :: "string list \<Rightarrow> arr \<Rightarrow> (string \<times> real) list" where
  "dict_zip keys vals = foldl (\<lambda>d (k, v). AList.update k v d) [] (zip keys vals)"

text \<open>From luminosity to observed flux at the redshift of the model, and the attributes
  \<^verbatim>\<open>lum_flux\<close>, \<^verbatim>\<open>line_fluxes\<close> and \<^verbatim>\<open>spectrum_full\<close>.\<close>

definition to_observed_flux ::
  "galaxy \<Rightarrow> dust_obj option \<Rightarrow> attrs \<Rightarrow> params \<Rightarrow> arr \<Rightarrow> arr \<Rightarrow> error + attrs" where
  "to_observed_flux I da s model_comp spectrum em_lines =
     (let s = s\<lparr>self_lum_flux := Some 1.0\<rparr> in
      bindE (bindE (getitem model_comp ''redshift'') as_num) (\<lambda>z.
      bindE (if z > 0.0 then
               bindE (np_interp z (z_array I) (ldist_at_z I) 0 0) (\<lambda>d.
               let ldist_cm = 3.086 * 10 ^ 24 * d
               in Inr (s\<lparr>self_lum_flux := Some (4 * pi * ldist_cm ^ 2)\<rparr>))
             else Inr s) (\<lambda>s.
      bindE (attr (self_lum_flux s)) (\<lambda>lum_flux.
      let spectrum = map (\<lambda>v. v / (lum_flux * (1.0 + z))) spectrum in
      bindE (on_spectrum_bc da (\<lambda>v. v / (lum_flux * (1.0 + z))) s) (\<lambda>s.
      let em_lines = map (\<lambda>v. v / lum_flux) em_lines;
          spectrum = map (\<lambda>v. v * (3.826 * 10 ^ 33)) spectrum
      in
      bindE (on_spectrum_bc da (\<lambda>v. v * (3.826 * 10 ^ 33)) s) (\<lambda>s.
      let em_lines = map (\<lambda>v. v * (3.826 * 10 ^ 33)) em_lines
      in Inr (s\<lparr>self_line_fluxes := Some (dict_zip (line_names I) em_lines),
               self_spectrum_full := Some spectrum\<rparr>)))))))"

text \<open>\<^verbatim>\<open>_calculate_full_spectrum(model_comp, cont_only, rm_line)\<close>. \<open>sfh\<close> and \<open>da\<close>
  are the star-formation history and the dust attenuation model as \<^verbatim>\<open>update\<close> left
  them (\<open>da = None\<close> when the instance has no dust attenuation).\<close>

definition calculate_full_spectrum ::
  "galaxy \<Rightarrow> sfh_obj \<Rightarrow> dust_obj option \<Rightarrow> attrs \<Rightarrow> params \<Rightarrow> bool \<Rightarrow> string list option
     \<Rightarrow> error + attrs" where
  "calculate_full_spectrum I sfh da s model_comp cont_only rm_line =
     bindE (get_t_bc model_comp) (\<lambda>t_bc.
     let (spectrum_bc, spectrum) = stellar_spectrum I (ceh_grid sfh) t_bc;
         em_lines = map (\<lambda>w. 0) (line_wavs I)
     in
     bindE (nebular_stage I sfh model_comp t_bc cont_only rm_line spectrum_bc em_lines)
       (\<lambda>(spectrum_bc, em_lines).
     bindE (bc_dust_stage da (wavelengths I) model_comp spectrum_bc em_lines)
       (\<lambda>(spectrum_bc, em_lines, dust_flux).
     let spectrum = map2 (+) spectrum spectrum_bc in
     bindE (ism_dust_stage I da s model_comp spectrum spectrum_bc dust_flux)
       (\<lambda>(spectrum, s).
     bindE (igm_dla_stage I da s model_comp spectrum)
       (\<lambda>(spectrum, s).
     to_observed_flux I da s model_comp spectrum em_lines)))))"

subsection \<open>The update of the model outputs\<close>

datatype warning = RuntimeWarning string

definition big_bang_warning :: warning where
  "big_bang_warning = RuntimeWarning
     ''The requested model includes stars which formed before the Big Bang, no spectrum generated.''"

text \<open>The AGN block of \<^verbatim>\<open>update\<close>.\<close>

definition add_agn :: "galaxy \<Rightarrow> attrs \<Rightarrow> error + attrs" where
  "add_agn I s =
     (case agn I of
        None \<Rightarrow> Inr s
      | Some agn_model \<Rightarrow>
          bindE (attr (self_model_comp s)) (\<lambda>self_mc.
          bindE (getitem self_mc ''agn'') (\<lambda>agn_comp.
          bindE (bindE (getitem self_mc ''redshift'') as_num) (\<lambda>z.
          let agn_spec = map2 (*) (agn_model agn_comp) (igm_trans I z) in
          bindE (attr (self_spectrum_full s)) (\<lambda>full.
          let s = s\<lparr>self_spectrum_full := Some (map2 (+) full (map (\<lambda>v. v / (1.0 + z)) agn_spec))\<rparr>
          in
          case spec_wavs I of
            None \<Rightarrow> Inr s
          | Some sw \<Rightarrow>
              let zplus1 = z + 1.0 in
              bindE (np_interp_arr sw (map (\<lambda>w. w * zplus1) (wavelengths I))
                       (map (\<lambda>v. v / zplus1) agn_spec) 0 0) (\<lambda>agn_interp.
              bindE (attr (self_spectrum s)) (\<lambda>sp.
              Inr (s\<lparr>self_spectrum := Some (map2 (\<lambda>(w, fl) v. (w, fl + v)) sp agn_interp)\<rparr>))))))))"

text \<open>The spectral indices of \<^verbatim>\<open>update\<close>.\<close>

definition measure_indices :: "galaxy \<Rightarrow> params \<Rightarrow> attrs \<Rightarrow> error + attrs" where
  "measure_indices I model_components s =
     (case index_list I of
        None \<Rightarrow> Inr s
      | Some il \<Rightarrow>
          let s = s\<lparr>self_index_names := Some (map ix_name il)\<rparr> in
          if il = [] then Inr (s\<lparr>self_indices := Some []\<rparr>)
          else
            bindE (attr (self_spectrum s)) (\<lambda>sp.
            bindE (bindE (getitem model_components ''redshift'') as_num) (\<lambda>z.
            Inr (s\<lparr>self_indices := Some (map (\<lambda>ix. measure_index I ix sp z) il)\<rparr>))))"

text \<open>The pieces of \<^verbatim>\<open>update\<close> around the full spectrum: the update of the dust
  attenuation model, the spectrum on the output wavelengths, the photometry and the
  UVJ magnitudes.\<close>

definition update_dust :: "galaxy \<Rightarrow> params \<Rightarrow> error + dust_obj option" where
  "update_dust I model_components =
     (case dust_atten I of
        None \<Rightarrow> Inr None
      | Some dust_update \<Rightarrow>
          bindE (getitem model_components ''dust'') (\<lambda>dust. Inr (Some (dust_update dust))))"

definition resample :: "galaxy \<Rightarrow> params \<Rightarrow> attrs \<Rightarrow> error + attrs" where
  "resample I model_components s =
     (case spec_wavs I of
        None \<Rightarrow> Inr s
      | Some sw \<Rightarrow>
          bindE (attr (self_spectrum_full s)) (\<lambda>full.
          Inr (s\<lparr>self_spectrum := Some (calculate_spectrum I model_components full)\<rparr>)))"

definition photometry_step :: "galaxy \<Rightarrow> params \<Rightarrow> attrs \<Rightarrow> error + attrs" where
  "photometry_step I model_components s =
     (case filt_list I of
        None \<Rightarrow> Inr s
      | Some fl \<Rightarrow>
          bindE (bindE (getitem model_components ''redshift'') as_num) (\<lambda>z.
          bindE (attr (self_spectrum_full s)) (\<lambda>full.
          Inr (s\<lparr>self_photometry := Some (calculate_photometry I z full)\<rparr>))))"

definition uvj_step :: "galaxy \<Rightarrow> sfh_obj \<Rightarrow> attrs \<Rightarrow> error + attrs" where
  "uvj_step I sfh s =
     (if \<not> unphysical sfh then
        bindE (attr (self_spectrum_full s)) (\<lambda>full.
        Inr (s\<lparr>self_uvj := Some (calculate_uvj_mags I full)\<rparr>))
      else Inr s)"

text \<open>The part of \<^verbatim>\<open>update\<close> that follows the full spectrum.\<close>

definition observables :: "galaxy \<Rightarrow> sfh_obj \<Rightarrow> params \<Rightarrow> attrs \<Rightarrow> error + attrs" where
  "observables I sfh model_components s =
     bindE (resample I model_components s) (\<lambda>s.
     bindE (add_agn I s) (\<lambda>s.
     bindE (photometry_step I model_components s) (\<lambda>s.
     bindE (uvj_step I sfh s) (\<lambda>s.
     measure_indices I model_components s))))"

text \<open>\<^verbatim>\<open>update(model_components, cont_only, rm_line)\<close>: the attributes after the call and
  the warnings it emitted, or the exception it raised.\<close>

definition update ::
  "galaxy \<Rightarrow> attrs \<Rightarrow> params \<Rightarrow> bool \<Rightarrow> string list option \<Rightarrow> error + (attrs \<times> warning list)" where
  "update I s model_components cont_only rm_line =
     (let s = s\<lparr>self_model_comp := Some model_components\<rparr>;
          sfh = sfh_update I model_components
      in
      bindE (update_dust I model_components) (\<lambda>da.
      bindE (if unphysical sfh then
               Inr (s\<lparr>self_spectrum_full := Some (map (\<lambda>w. 0) (wavelengths I)),
                      self_uvj := Some [0, 0, 0]\<rparr>, [big_bang_warning])
             else
               bindE (calculate_full_spectrum I sfh da s model_components cont_only rm_line)
                 (\<lambda>s. Inr (s, [])))
        (\<lambda>(s, warns).
      bindE (observables I sfh model_components s) (\<lambda>s. Inr (s, warns)))))"

subsection \<open>A small instance\<close>

text \<open>A galaxy on a grid of four wavelengths with a table of two lines, used to run the
  definitions. Its star-formation history is unphysical when the burst is older than
  13 Gyr; the grid of its nebular star-formation history records the metallicity each
  component carries (\<open>-1\<close> for a dictionary without one, \<open>-2\<close> for a number or a string).\<close>

definition demo_age_unphysical :: "params \<Rightarrow> bool" where
  "demo_age_unphysical mc =
     (case map_of mc ''burst'' of
        Some (Dict d) \<Rightarrow> (case map_of d ''age'' of Some (Num a) \<Rightarrow> 13 < a | _ \<Rightarrow> False)
      | _ \<Rightarrow> False)"

definition demo_metallicities :: "params \<Rightarrow> real list" where
  "demo_metallicities mc =
     map (\<lambda>(k, v). case v of
                     Dict d \<Rightarrow> (case map_of d ''metallicity'' of Some (Num m) \<Rightarrow> m | _ \<Rightarrow> - 1)
                   | _ \<Rightarrow> - 2) mc"

definition demo :: galaxy where
  "demo = \<lparr>
     wavelengths = [800, 1000, 1200, 1400],
     spec_wavs = None,
     filt_list = None,
     index_list = None,
     sfh_update = (\<lambda>mc. \<lparr>unphysical = demo_age_unphysical mc, ceh_grid = [[1]]\<rparr>),
     neb_sfh_update = (\<lambda>mc. \<lparr>unphysical = False, ceh_grid = [demo_metallicities mc]\<rparr>),
     stellar_spectrum = (\<lambda>g t. ([4, 4, 4, 4], [1, 1, 1, 1])),
     nebular = Some \<lparr>nebular_line_fluxes = (\<lambda>g t u. [6, 8]),
                     nebular_spectrum = (\<lambda>g t u. [1, 2, 3, 4])\<rparr>,
     dust_atten = None,
     dust_emission_spectrum = (\<lambda>q u g. [0, 1 / 200, 0, 0]),
     igm_trans = (\<lambda>z. [1, 1, 1, 1]),
     agn = None,
     calculate_spectrum = (\<lambda>mc full. map (\<lambda>v. (0, v)) full),
     calculate_photometry = (\<lambda>z full. [sum_list full]),
     calculate_uvj_mags = (\<lambda>full. [1, 2, 3]),
     measure_index = (\<lambda>ix sp z. 0),
     line_names = [''H  1  1215.67A'', ''H  1  6562.81A''],
     line_wavs = [1215.67, 6562.81],
     z_array = [0, 1, 2],
     ldist_at_z = [0, 2, 6] \<rparr>"

text \<open>The same galaxy with dust attenuation, and with an AGN component.\<close>

definition demo_dust :: galaxy where
  "demo_dust = demo\<lparr>dust_atten := Some (\<lambda>d. \<lparr>A_cont = [1, 1, 1, 1], A_line = [1, 1]\<rparr>)\<rparr>"

definition demo_agn :: galaxy where
  "demo_agn = demo\<lparr>agn := Some (\<lambda>a. [3, 3, 3, 3])\<rparr>"

text \<open>An instance before its first update, and three dictionaries of model components.\<close>

definition no_attrs :: attrs where
  "no_attrs = \<lparr>self_model_comp = None, self_spectrum_full = None, self_spectrum_bc = None,
     self_line_fluxes = None, self_lum_flux = None, self_spectrum = None,
     self_photometry = None, self_uvj = None, self_index_names = None,
     self_indices = None\<rparr>"

definition young_burst :: params where
  "young_burst =
     [(''redshift'', Num 0),
      (''burst'', Dict [(''age'', Num 1), (''massformed'', Num 10), (''metallicity'', Num 1)]),
      (''dust'', Dict [(''type'', Str ''Calzetti''), (''Av'', Num 2.5)]),
      (''nebular'', Dict [(''logU'', Num (- 3))]),
      (''agn'', Dict [(''alphalam'', Num (- 1))])]"

definition old_burst :: params where
  "old_burst =
     [(''redshift'', Num 0),
      (''burst'', Dict [(''age'', Num 20), (''massformed'', Num 10), (''metallicity'', Num 1)]),
      (''dust'', Dict [(''type'', Str ''Calzetti''), (''Av'', Num 2.5)]),
      (''nebular'', Dict [(''logU'', Num (- 3))]),
      (''agn'', Dict [(''alphalam'', Num (- 1))])]"

definition metal_burst :: params where
  "metal_burst =
     [(''redshift'', Num 0),
      (''burst'', Dict [(''age'', Num 1), (''massformed'', Num 10), (''metallicity'', Num 1)]),
      (''dust'', Dict [(''type'', Str ''Calzetti''), (''Av'', Num 2.5)]),
      (''nebular'', Dict [(''logU'', Num (- 3)), (''metallicity'', Num 0.5)])]"

definition distant_burst :: params where
  "distant_burst =
     [(''redshift'', Num 1),
      (''burst'', Dict [(''age'', Num 1), (''massformed'', Num 10), (''metallicity'', Num 1)]),
      (''dust'', Dict [(''type'', Str ''Calzetti''), (''Av'', Num 2.5), (''eta'', Num 2)]),
      (''nebular'', Dict [(''logU'', Num (- 3)), (''velshift'', Num 300)]),
      (''dla'', Dict [(''t'', Num (2 * 10 ^ 20)), (''zabs'', Num 0)])]"

text \<open>The same galaxy with an output grid of two wavelengths, on which the resampled
  spectrum is the mean of the full spectrum, a filter, an index, dust and an AGN
  component.\<close>

definition demo_full :: galaxy where
  "demo_full = demo\<lparr>
     spec_wavs := Some [900, 1100],
     calculate_spectrum := (\<lambda>mc full. [(900, sum_list full / 4), (1100, sum_list full / 4)]),
     filt_list := Some [''F115W''],
     index_list := Some [\<lparr>ix_name = ''D4000'', ix_bands = [3850, 3950, 4000, 4100]\<rparr>],
     dust_atten := Some (\<lambda>d. \<lparr>A_cont = [1, 1, 1, 1], A_line = [1, 1]\<rparr>),
     agn := Some (\<lambda>a. [3, 3, 3, 3])\<rparr>"

text \<open>The attributes of \<open>demo\<close> after an update that removes the first line of the table,
  and those of \<open>demo_dust\<close> after an update.\<close>

definition demo_first :: attrs where
  "demo_first = no_attrs\<lparr>self_model_comp := Some young_burst,
         self_spectrum_full :=
           Some (map (\<lambda>v. v * (3.826 * 10 ^ 33))
                   [2, 7, 1 + float64 (7 - float64 (6 / 200)), 9]),
         self_line_fluxes := Some [(''H  1  1215.67A'', 6 * (3.826 * 10 ^ 33)),
                                   (''H  1  6562.81A'', 8 * (3.826 * 10 ^ 33))],
         self_lum_flux := Some 1,
         self_uvj := Some [1, 2, 3]\<rparr>"


subsection \<open>The metallicity override as the specification words it\<close>

text \<open>The nebular metallicity replaces the metallicity of the components that declare one;
  a component that declares none is passed through unchanged.\<close>

definition set_declared_metallicity :: "pval \<Rightarrow> params \<Rightarrow> params" where
  "set_declared_metallicity nebular_metallicity comps =
     map (\<lambda>(comp, v).
            case v of
              Dict d \<Rightarrow>
                if ''metallicity'' \<in> set (map fst d)
                then (comp, Dict (AList.update ''metallicity'' nebular_metallicity d))
                else (comp, v)
            | _ \<Rightarrow> (comp, v)) comps"

subsection \<open>The attributes a call writes\<close>

text \<open>\<open>cfs_write da t s'\<close> stores in \<open>t\<close> the attributes that
  \<^verbatim>\<open>_calculate_full_spectrum\<close> writes, with the values they have in \<open>s'\<close>;
  \<open>observables_write\<close> and \<open>update_write\<close> do the same for the rest of
  \<^verbatim>\<open>update\<close> and for the whole call.\<close>

definition cfs_write :: "dust_obj option \<Rightarrow> attrs \<Rightarrow> attrs \<Rightarrow> attrs" where
  "cfs_write da t s' =
     t\<lparr>self_spectrum_bc := (if da = None then self_spectrum_bc t else self_spectrum_bc s'),
       self_lum_flux := self_lum_flux s',
       self_line_fluxes := self_line_fluxes s',
       self_spectrum_full := self_spectrum_full s'\<rparr>"

definition observables_write :: "galaxy \<Rightarrow> sfh_obj \<Rightarrow> attrs \<Rightarrow> attrs \<Rightarrow> attrs" where
  "observables_write I sfh t s' =
     t\<lparr>self_spectrum_full := self_spectrum_full s',
       self_spectrum := (if spec_wavs I = None then self_spectrum t else self_spectrum s'),
       self_photometry := (if filt_list I = None then self_photometry t else self_photometry s'),
       self_uvj := (if unphysical sfh then self_uvj t else self_uvj s'),
       self_index_names :=
         (if index_list I = None then self_index_names t else self_index_names s'),
       self_indices := (if index_list I = None then self_indices t else self_indices s')\<rparr>"

definition update_write :: "galaxy \<Rightarrow> params \<Rightarrow> attrs \<Rightarrow> attrs \<Rightarrow> attrs" where
  "update_write I mc t s' =
     t\<lparr>self_model_comp := self_model_comp s',
       self_spectrum_full := self_spectrum_full s',
       self_spectrum_bc :=
         (if unphysical (sfh_update I mc) \<or> dust_atten I = None then self_spectrum_bc t
          else self_spectrum_bc s'),
       self_line_fluxes :=
         (if unphysical (sfh_update I mc) then self_line_fluxes t else self_line_fluxes s'),
       self_lum_flux :=
         (if unphysical (sfh_update I mc) then self_lum_flux t else self_lum_flux s'),
       self_spectrum := (if spec_wavs I = None then self_spectrum t else self_spectrum s'),
       self_photometry := (if filt_list I = None then self_photometry t else self_photometry s'),
       self_uvj := self_uvj s',
       self_index_names :=
         (if index_list I = None then self_index_names t else self_index_names s'),
       self_indices := (if index_list I = None then self_indices t else self_indices s')\<rparr>"

section \<open>Properties\<close>

subsection \<open>Evaluation lemmas\<close>

lemma bindE_simps [simp]: "bindE (Inl e) f = Inl e" "bindE (Inr v) f = f v"
  by (simp_all add: bindE_def)

lemma attr_simps [simp]: "attr None = Inl AttributeError" "attr (Some v) = Inr v"
  by (simp_all add: attr_def)

lemma bindE_eq_Inr: "bindE m f = Inr r \<longleftrightarrow> (\<exists>v. m = Inr v \<and> f v = Inr r)"
  by (cases m) simp_all

lemma bindE_assoc: "bindE (bindE m f) g = bindE m (\<lambda>x. bindE (f x) g)"
  by (cases m) simp_all

lemmas demo_simps = demo_def demo_dust_def demo_agn_def no_attrs_def young_burst_def old_burst_def
  metal_burst_def distant_burst_def demo_age_unphysical_def demo_metallicities_def
lemmas run_simps = update_def update_dust_def observables_def resample_def photometry_step_def
  uvj_step_def calculate_full_spectrum_def get_t_bc_def nebular_stage_def
  nebular_grid_def set_metallicity_def zero_below_lyman_def bc_dust_stage_def dust_param_def
  ism_dust_stage_def igm_dla_stage_def on_spectrum_bc_def dict_zip_def to_observed_flux_def
  add_agn_def measure_indices_def getitem_def subscript_def in_list_def as_num_def get_num_def
  get_default_def take_idx_def argwhere_def remove_line_def argmin_def np_interp_def

subsection \<open>From luminosity to observed flux\<close>

text \<open>
  C7. In the conversion from luminosity to flux, with the redshift of the model
  components a number \<open>z\<close>: at \<open>z = 0\<close> the attribute \<^verbatim>\<open>lum_flux\<close> is 1 and the spectrum,
  the birth-cloud spectrum (kept when dust attenuation is on) and the line fluxes are only
  multiplied by the constant \<open>3.826 * 10 ^ 33\<close>; at \<open>z > 0\<close>, with \<open>d\<close> the value that
  \<^verbatim>\<open>np.interp\<close> reads off the distance table and \<open>d_L = 3.086 * 10 ^ 24 * d\<close>, the
  spectrum and the birth-cloud spectrum are divided by \<open>4 * pi * d_L ^ 2 * (1 + z)\<close> and
  the line fluxes by \<open>4 * pi * d_L ^ 2\<close> alone, before that constant is applied.
\<close>

theorem flux_conversion:
  assumes "getitem mc ''redshift'' = Inr (Num z)"
    and "da = None \<or> self_spectrum_bc s = Some bc"
  shows "(z = 0 \<longrightarrow>
           to_observed_flux I da s mc spectrum em_lines =
             Inr (s\<lparr>self_lum_flux := Some 1,
                    self_spectrum_bc :=
                      (if da = None then self_spectrum_bc s
                       else Some (map (\<lambda>v. v * (3.826 * 10 ^ 33)) bc)),
                    self_line_fluxes :=
                      Some (dict_zip (line_names I)
                              (map (\<lambda>v. v * (3.826 * 10 ^ 33)) em_lines)),
                    self_spectrum_full := Some (map (\<lambda>v. v * (3.826 * 10 ^ 33)) spectrum)\<rparr>))
       \<and> (0 < z \<longrightarrow> (\<forall>d. np_interp z (z_array I) (ldist_at_z I) 0 0 = Inr d \<longrightarrow>
           to_observed_flux I da s mc spectrum em_lines =
             Inr (s\<lparr>self_lum_flux := Some (4 * pi * (3.086 * 10 ^ 24 * d) ^ 2),
                    self_spectrum_bc :=
                      (if da = None then self_spectrum_bc s
                       else Some (map (\<lambda>v. v / (4 * pi * (3.086 * 10 ^ 24 * d) ^ 2 * (1 + z))
                                             * (3.826 * 10 ^ 33)) bc)),
                    self_line_fluxes :=
                      Some (dict_zip (line_names I)
                              (map (\<lambda>v. v / (4 * pi * (3.086 * 10 ^ 24 * d) ^ 2)
                                          * (3.826 * 10 ^ 33)) em_lines)),
                    self_spectrum_full :=
                      Some (map (\<lambda>v. v / (4 * pi * (3.086 * 10 ^ 24 * d) ^ 2 * (1 + z))
                                      * (3.826 * 10 ^ 33)) spectrum)\<rparr>)))"
  using assms
  by (auto simp: to_observed_flux_def on_spectrum_bc_def as_num_def Let_def o_def)

theorem flux_conversion_witness:
  "to_observed_flux demo None no_attrs young_burst [1, 2, 3, 4] [5, 6] =
     Inr (no_attrs\<lparr>self_lum_flux := Some 1,
            self_line_fluxes := Some (dict_zip (line_names demo)
                                        (map (\<lambda>v. v * (3.826 * 10 ^ 33)) [5, 6])),
            self_spectrum_full := Some (map (\<lambda>v. v * (3.826 * 10 ^ 33)) [1, 2, 3, 4])\<rparr>)
   \<and> np_interp 1 (z_array demo) (ldist_at_z demo) 0 0 = Inr 2
   \<and> to_observed_flux demo_dust (Some \<lparr>A_cont = [1, 1, 1, 1], A_line = [1, 1]\<rparr>)
        (no_attrs\<lparr>self_spectrum_bc := Some [7, 8, 9, 10]\<rparr>) distant_burst [1, 2, 3, 4] [5, 6] =
     Inr (no_attrs\<lparr>self_lum_flux := Some (4 * pi * (3.086 * 10 ^ 24 * 2) ^ 2),
            self_spectrum_bc :=
              Some (map (\<lambda>v. v / (4 * pi * (3.086 * 10 ^ 24 * 2) ^ 2 * (1 + 1))
                              * (3.826 * 10 ^ 33)) [7, 8, 9, 10]),
            self_line_fluxes :=
              Some (dict_zip (line_names demo_dust)
                      (map (\<lambda>v. v / (4 * pi * (3.086 * 10 ^ 24 * 2) ^ 2) * (3.826 * 10 ^ 33))
                         [5, 6])),
            self_spectrum_full :=
              Some (map (\<lambda>v. v / (4 * pi * (3.086 * 10 ^ 24 * 2) ^ 2 * (1 + 1))
                              * (3.826 * 10 ^ 33)) [1, 2, 3, 4])\<rparr>)"
proof -
  have r0: "getitem young_burst ''redshift'' = Inr (Num 0)"
    by (simp add: getitem_def young_burst_def)
  have r1: "getitem distant_burst ''redshift'' = Inr (Num 1)"
    by (simp add: getitem_def distant_burst_def)
  have d: "np_interp 1 (z_array demo) (ldist_at_z demo) 0 0 = Inr 2"
    by (simp add: np_interp_def demo_def)
  have d': "np_interp 1 (z_array demo_dust) (ldist_at_z demo_dust) 0 0 = Inr 2"
    by (simp add: np_interp_def demo_dust_def demo_def)
  show ?thesis
    using flux_conversion [OF r0, where da = None and s = no_attrs and I = demo
        and spectrum = "[1, 2, 3, 4]" and em_lines = "[5, 6]"]
      flux_conversion [OF r1, where da = "Some \<lparr>A_cont = [1, 1, 1, 1], A_line = [1, 1]\<rparr>"
        and s = "no_attrs\<lparr>self_spectrum_bc := Some [7, 8, 9, 10]\<rparr>" and bc = "[7, 8, 9, 10]"
        and I = demo_dust and spectrum = "[1, 2, 3, 4]" and em_lines = "[5, 6]"]
      d d'
    by simp
qed

subsection \<open>Stellar flux below the Lyman limit\<close>

lemma zero_below_lyman_nth:
  assumes "i < length wavs" and "i < length spectrum_bc"
  shows "zero_below_lyman wavs spectrum_bc ! i = (if wavs ! i < 912 then 0 else spectrum_bc ! i)"
  using assms by (simp add: zero_below_lyman_def)

text \<open>
  C8. With nebular emission enabled and \<^verbatim>\<open>cont_only\<close> false, the nebular block first
  sets the stellar birth-cloud flux to zero at every grid point below 912 Angstrom and
  only then adds the nebular spectrum; the requested lines are removed from that sum.
  So at a grid point below 912 Angstrom the combined birth-cloud spectrum is the nebular
  spectrum alone, and at the other grid points the stellar flux is kept.
\<close>

theorem lyman_limit_zeroed:
  assumes "nebular I = Some nm"
    and "getitem mc ''nebular'' = Inr neb"
    and "nebular_grid I sfh mc neb = Inr g"
    and "get_num neb ''logU'' = Inr logU"
  shows "nebular_stage I sfh mc t_bc False rm_line spectrum_bc em_lines =
           (let stellar = zero_below_lyman (wavelengths I) spectrum_bc;
                combined = map2 (+) stellar (nebular_spectrum nm g t_bc logU);
                em = map2 (+) em_lines (nebular_line_fluxes nm g t_bc logU)
            in case rm_line of
                 None \<Rightarrow> Inr (combined, em)
               | Some rms \<Rightarrow>
                   bindE (remove_lines (wavelengths I) (line_names I) (line_wavs I) em neb rms
                            combined) (\<lambda>b. Inr (b, em)))
       \<and> (\<forall>i. i < length (wavelengths I) \<and> i < length spectrum_bc
              \<and> i < length (nebular_spectrum nm g t_bc logU) \<longrightarrow>
            (wavelengths I ! i < 912 \<longrightarrow>
               zero_below_lyman (wavelengths I) spectrum_bc ! i = 0
               \<and> map2 (+) (zero_below_lyman (wavelengths I) spectrum_bc)
                     (nebular_spectrum nm g t_bc logU) ! i
                   = nebular_spectrum nm g t_bc logU ! i)
            \<and> (912 \<le> wavelengths I ! i \<longrightarrow>
               zero_below_lyman (wavelengths I) spectrum_bc ! i = spectrum_bc ! i))"
proof -
  have "nebular_stage I sfh mc t_bc False rm_line spectrum_bc em_lines =
           (let stellar = zero_below_lyman (wavelengths I) spectrum_bc;
                combined = map2 (+) stellar (nebular_spectrum nm g t_bc logU);
                em = map2 (+) em_lines (nebular_line_fluxes nm g t_bc logU)
            in case rm_line of
                 None \<Rightarrow> Inr (combined, em)
               | Some rms \<Rightarrow>
                   bindE (remove_lines (wavelengths I) (line_names I) (line_wavs I) em neb rms
                            combined) (\<lambda>b. Inr (b, em)))"
    using assms by (simp add: nebular_stage_def Let_def)
  moreover have "length (zero_below_lyman (wavelengths I) spectrum_bc)
      = min (length (wavelengths I)) (length spectrum_bc)"
    by (simp add: zero_below_lyman_def)
  ultimately show ?thesis
    by (simp add: zero_below_lyman_nth)
qed

theorem lyman_limit_zeroed_witness:
  "nebular_stage demo \<lparr>unphysical = False, ceh_grid = [[1]]\<rparr> young_burst 0.01 False None
       [4, 4, 4, 4] [0, 0] = Inr ([1, 6, 7, 8], [6, 8])
   \<and> wavelengths demo ! 0 < 912
   \<and> zero_below_lyman (wavelengths demo) [4, 4, 4, 4] ! 0 = 0"
proof -
  have n: "nebular demo = Some \<lparr>nebular_line_fluxes = (\<lambda>g t u. [6, 8]),
                               nebular_spectrum = (\<lambda>g t u. [1, 2, 3, 4])\<rparr>"
    by (simp add: demo_def)
  have neb: "getitem young_burst ''nebular'' = Inr (Dict [(''logU'', Num (- 3))])"
    by (simp add: getitem_def young_burst_def)
  have g: "nebular_grid demo \<lparr>unphysical = False, ceh_grid = [[1]]\<rparr> young_burst
             (Dict [(''logU'', Num (- 3))]) = Inr [[1]]"
    by (simp add: nebular_grid_def in_list_def)
  have u: "get_num (Dict [(''logU'', Num (- 3))]) ''logU'' = Inr (- 3)"
    by (simp add: get_num_def subscript_def getitem_def as_num_def)
  have w: "wavelengths demo = [800, 1000, 1200, 1400]"
    by (simp add: demo_def)
  show ?thesis
    using lyman_limit_zeroed [OF n neb g u, where t_bc = "0.01" and rm_line = None
        and spectrum_bc = "[4, 4, 4, 4]" and em_lines = "[0, 0]"]
    by (simp add: w zero_below_lyman_def)
qed

subsection \<open>Rounding\<close>





lemma binade_eq:
  assumes "2 powi e \<le> \<bar>x\<bar>" and "\<bar>x\<bar> < 2 powi (e + 1)"
  shows "\<lfloor>log 2 \<bar>x\<bar>\<rfloor> = e"
proof -
  have pos: "0 < \<bar>x\<bar>" using assms(1) zero_less_power_int [of "2::real" e] by linarith
  have "2 powr (of_int e) \<le> \<bar>x\<bar>" "\<bar>x\<bar> < 2 powr (of_int e + 1)"
    using assms powr_real_of_int' [of "2::real" e] powr_real_of_int' [of "2::real" "e + 1"]
    by simp_all
  then show ?thesis
    using floor_log_eq_powr_iff [of "\<bar>x\<bar>" 2 e] pos by simp
qed



lemma ulp_minus [simp]: "ulp (- x) = ulp x"
  by (simp add: ulp_def)


text \<open>The unit in the last place once the binade is known, and below the normal numbers.\<close>

lemma ulp_at:
  assumes "2 powi e \<le> \<bar>x\<bar>" and "\<bar>x\<bar> < 2 powi (e + 1)" and "- 1022 \<le> e"
  shows "ulp x = 2 powi (e - 52)"
  using assms(3) by (simp add: ulp_def binade_eq [OF assms(1,2)] max_def)



lemma float64_zero [simp]: "float64 0 = 0"
  by (simp add: float64_def)



text \<open>The value of float64 once the binade is known.\<close>

lemma float64_at:
  assumes "2 powi e \<le> \<bar>x\<bar>" and "\<bar>x\<bar> < 2 powi (e + 1)" and "- 1022 \<le> e"
  shows "float64 x = sgn x * (of_int (round_even (\<bar>x\<bar> / 2 powi (e - 52))) * 2 powi (e - 52))"
proof -
  have "(0::real) < 2 powi e" by simp
  with assms(1) have "0 < \<bar>x\<bar>" by linarith
  then have "x \<noteq> 0" by auto
  then show ?thesis
    by (simp add: float64_def ulp_at [OF assms])
qed










text \<open>The numbers the small instance computes with.\<close>

lemma float64_values:
  "float64 400 = 400" "float64 200 = 200" "float64 1 = 1" "float64 7 = 7"
  "float64 (1 / 4) = 1 / 4" "float64 (27 / 4) = 27 / 4"
  using float64_at [of 8 400] float64_at [of 7 200] float64_at [of 0 1] float64_at [of 2 7]
    float64_at [of "- 2" "1 / 4"] float64_at [of 2 "27 / 4"]
  by (simp_all add: round_even_def frac_def)


subsection \<open>Removing a line\<close>







subsection \<open>A line name that the table does not hold\<close>

lemma remove_line_unknown:
  assumes "rm \<notin> set names"
  shows "\<exists>e. remove_line wavs names lwavs em_lines neb rm spectrum_bc = Inl e"
proof -
  have "argwhere names rm = []"
    using assms by (auto simp: argwhere_def filter_empty_conv)
  then show ?thesis
    by (cases "get_default neb ''velshift'' 0")
       (simp_all add: remove_line_def take_idx_def argmin_def)
qed

lemma remove_lines_unknown:
  assumes "rm \<in> set rms" and "rm \<notin> set names"
  shows "\<exists>e. remove_lines wavs names lwavs em_lines neb rms spectrum_bc = Inl e"
  using assms
proof (induction rms arbitrary: spectrum_bc)
  case Nil
  then show ?case by simp
next
  case (Cons r rms)
  show ?case
  proof (cases "remove_line wavs names lwavs em_lines neb r spectrum_bc")
    case (Inl e)
    then show ?thesis by simp
  next
    case (Inr b)
    have "r \<noteq> rm"
    proof
      assume "r = rm"
      with remove_line_unknown [OF Cons.prems(2), of wavs lwavs em_lines neb spectrum_bc] Inr
      show False by simp
    qed
    with Cons.prems have "rm \<in> set rms" by auto
    with Cons.IH Cons.prems(2) Inr show ?thesis by simp
  qed
qed
lemma nebular_stage_unknown:
  assumes "nebular I = Some nm" and "rm \<in> set rms" and "rm \<notin> set (line_names I)"
  shows "\<exists>e. nebular_stage I sfh mc t_bc False (Some rms) spectrum_bc em_lines = Inl e"
proof (cases "getitem mc ''nebular''")
  case (Inl e)
  with assms(1) show ?thesis by (simp add: nebular_stage_def)
next
  case neb: (Inr neb)
  show ?thesis
  proof (cases "nebular_grid I sfh mc neb")
    case (Inl e)
    with assms(1) neb show ?thesis by (simp add: nebular_stage_def)
  next
    case g: (Inr g)
    show ?thesis
    proof (cases "get_num neb ''logU''")
      case (Inl e)
      with assms(1) neb g show ?thesis by (simp add: nebular_stage_def)
    next
      case (Inr logU)
      from remove_lines_unknown [OF assms(2,3)]
      obtain e where "remove_lines (wavelengths I) (line_names I) (line_wavs I)
          (map2 (+) em_lines (nebular_line_fluxes nm g t_bc logU)) neb rms
          (map2 (+) (zero_below_lyman (wavelengths I) spectrum_bc)
             (nebular_spectrum nm g t_bc logU)) = Inl e"
        by blast
      with assms(1) neb g Inr show ?thesis by (simp add: nebular_stage_def Let_def)
    qed
  qed
qed

lemma calculate_full_spectrum_unknown:
  assumes "nebular I = Some nm" and "rm \<in> set rms" and "rm \<notin> set (line_names I)"
  shows "\<exists>e. calculate_full_spectrum I sfh da s mc False (Some rms) = Inl e"
proof (cases "get_t_bc mc")
  case (Inl e)
  then show ?thesis by (simp add: calculate_full_spectrum_def)
next
  case (Inr t_bc)
  obtain sb sp where st: "stellar_spectrum I (ceh_grid sfh) t_bc = (sb, sp)"
    by (cases "stellar_spectrum I (ceh_grid sfh) t_bc")
  from nebular_stage_unknown [OF assms]
  obtain e where "nebular_stage I sfh mc t_bc False (Some rms) sb (map (\<lambda>w. 0) (line_wavs I)) = Inl e"
    by blast
  with Inr st show ?thesis by (simp add: calculate_full_spectrum_def)
qed

text \<open>
  C9. With a physical star-formation history, nebular emission enabled and \<^verbatim>\<open>cont_only\<close>
  false, \<^verbatim>\<open>update\<close> raises an exception when \<^verbatim>\<open>rm_line\<close> contains a name that the line
  table does not hold: the index array of that name is empty, and so is the array that
  \<^verbatim>\<open>argmin\<close> searches.
\<close>

theorem unknown_line_raises:
  assumes "\<not> unphysical (sfh_update I mc)" and "nebular I = Some nm"
    and "rm \<in> set rms" and "rm \<notin> set (line_names I)"
  shows "\<exists>e. update I s mc False (Some rms) = Inl e"
proof (cases "update_dust I mc")
  case (Inl e)
  then show ?thesis by (simp add: update_def Let_def)
next
  case (Inr da)
  from calculate_full_spectrum_unknown [OF assms(2-4)]
  obtain e where "calculate_full_spectrum I (sfh_update I mc) da
      (s\<lparr>self_model_comp := Some mc\<rparr>) mc False (Some rms) = Inl e"
    by blast
  with Inr assms(1) show ?thesis by (simp add: update_def Let_def)
qed

theorem unknown_line_raises_witness:
  "\<not> unphysical (sfh_update demo young_burst)
   \<and> (\<exists>e. update demo no_attrs young_burst False (Some [''O  3  5006.84A'']) = Inl e)"
proof -
  have a: "\<not> unphysical (sfh_update demo young_burst)"
    by (simp add: demo_def young_burst_def demo_age_unphysical_def)
  have n: "nebular demo = Some \<lparr>nebular_line_fluxes = (\<lambda>g t u. [6, 8]),
                               nebular_spectrum = (\<lambda>g t u. [1, 2, 3, 4])\<rparr>"
    by (simp add: demo_def)
  have m: "''O  3  5006.84A'' \<in> set [''O  3  5006.84A'']" by simp
  have u: "''O  3  5006.84A'' \<notin> set (line_names demo)" by (simp add: demo_def)
  from unknown_line_raises [OF a n m u] a show ?thesis by blast
qed

text \<open>With an unphysical star-formation history the full spectrum is not synthesised, and
  the same call returns with the warning.\<close>

theorem unknown_line_unphysical_counterexample:
  "unphysical (sfh_update demo old_burst)
   \<and> nebular demo \<noteq> None
   \<and> ''O  3  5006.84A'' \<notin> set (line_names demo)
   \<and> update demo no_attrs old_burst False (Some [''O  3  5006.84A'']) =
       Inr (no_attrs\<lparr>self_model_comp := Some old_burst,
                      self_spectrum_full := Some [0, 0, 0, 0],
                      self_uvj := Some [0, 0, 0]\<rparr>, [big_bang_warning])"
  by (simp add: update_def update_dust_def observables_def resample_def photometry_step_def
      uvj_step_def demo_def old_burst_def demo_age_unphysical_def add_agn_def
      measure_indices_def)


subsection \<open>What a call reads and what it writes\<close>

text \<open>Each step of \<^verbatim>\<open>update\<close> reads a few attributes and stores others. Run from a
  state \<open>t\<close> that agrees with \<open>s\<close> on what the step reads, it raises what it raises from
  \<open>s\<close>, or returns \<open>t\<close> with the attributes it writes set as in the result from \<open>s\<close>.\<close>

lemma ism_frame:
  "ism_dust_stage I da t mc sp sbc df =
     map_sum id (map_prod id (\<lambda>s'. if da = None then t else t\<lparr>self_spectrum_bc := self_spectrum_bc s'\<rparr>))
       (ism_dust_stage I da s mc sp sbc df)"
  by (auto simp: ism_dust_stage_def Let_def bindE_def split: option.splits sum.splits)

lemma igm_frame:
  assumes "self_model_comp t = self_model_comp s" "da \<noteq> None \<longrightarrow> self_spectrum_bc t = self_spectrum_bc s"
  shows "igm_dla_stage I da t mc sp =
     map_sum id (map_prod id (\<lambda>s'. if da = None then t else t\<lparr>self_spectrum_bc := self_spectrum_bc s'\<rparr>))
       (igm_dla_stage I da s mc sp)"
  using assms
  by (auto simp: igm_dla_stage_def Let_def bindE_def attr_def split: option.splits sum.splits)

lemma flux_frame:
  assumes "da \<noteq> None \<longrightarrow> self_spectrum_bc t = self_spectrum_bc s"
  shows "to_observed_flux I da t mc sp em =
     map_sum id (cfs_write da t) (to_observed_flux I da s mc sp em)"
  using assms
  by (auto simp: to_observed_flux_def on_spectrum_bc_def cfs_write_def Let_def bindE_def attr_def split: option.splits sum.splits)



lemma ism_result:
  "ism_dust_stage I da s mc sp sbc df = Inr (sp', s') \<Longrightarrow>
     s' = (if da = None then s else s\<lparr>self_spectrum_bc := self_spectrum_bc s'\<rparr>)"
  by (auto simp: ism_dust_stage_def Let_def bindE_def split: option.splits sum.splits)

lemma igm_result:
  "igm_dla_stage I da s mc sp = Inr (sp', s') \<Longrightarrow>
     s' = (if da = None then s else s\<lparr>self_spectrum_bc := self_spectrum_bc s'\<rparr>)"
  by (auto simp: igm_dla_stage_def Let_def bindE_def attr_def split: option.splits sum.splits if_splits)

lemma cfs_tail_frame:
  assumes mc: "self_model_comp t = self_model_comp s"
  shows "bindE (ism_dust_stage I da t mc sp sbc df) (\<lambda>(sp, s).
           bindE (igm_dla_stage I da s mc sp) (\<lambda>(sp, s). to_observed_flux I da s mc sp em)) =
         map_sum id (cfs_write da t)
           (bindE (ism_dust_stage I da s mc sp sbc df) (\<lambda>(sp, s).
              bindE (igm_dla_stage I da s mc sp) (\<lambda>(sp, s). to_observed_flux I da s mc sp em)))"
proof (cases "ism_dust_stage I da s mc sp sbc df")
  case (Inl e)
  with ism_frame [of I da t mc sp sbc df s] show ?thesis by simp
next
  case (Inr r)
  obtain sp1 s1 where r: "r = (sp1, s1)" by (cases r)
  define t1 where "t1 = (if da = None then t else t\<lparr>self_spectrum_bc := self_spectrum_bc s1\<rparr>)"
  have ism_t: "ism_dust_stage I da t mc sp sbc df = Inr (sp1, t1)"
    using ism_frame [of I da t mc sp sbc df s] Inr r by (simp add: t1_def)
  have s1: "s1 = (if da = None then s else s\<lparr>self_spectrum_bc := self_spectrum_bc s1\<rparr>)"
    using ism_result Inr r by blast
  have mc1: "self_model_comp t1 = self_model_comp s1"
    using mc s1 by (cases "da = None") (simp_all add: t1_def, metis attrs.select_convs(1) attrs.surjective attrs.update_convs(3))
  have bc1: "da \<noteq> None \<longrightarrow> self_spectrum_bc t1 = self_spectrum_bc s1"
    by (simp add: t1_def)
  show ?thesis
  proof (cases "igm_dla_stage I da s1 mc sp1")
    case (Inl e)
    with igm_frame [OF mc1 bc1, of I mc sp1] ism_t Inr r show ?thesis by simp
  next
    case Inr2: (Inr r2)
    obtain sp2 s2 where r2: "r2 = (sp2, s2)" by (cases r2)
    define t2 where "t2 = (if da = None then t1 else t1\<lparr>self_spectrum_bc := self_spectrum_bc s2\<rparr>)"
    have igm_t: "igm_dla_stage I da t1 mc sp1 = Inr (sp2, t2)"
      using igm_frame [OF mc1 bc1, of I mc sp1] Inr2 r2 by (simp add: t2_def)
    have bc2: "da \<noteq> None \<longrightarrow> self_spectrum_bc t2 = self_spectrum_bc s2"
      by (simp add: t2_def)
    have "to_observed_flux I da t2 mc sp2 em =
        map_sum id (cfs_write da t2) (to_observed_flux I da s2 mc sp2 em)"
      by (rule flux_frame [OF bc2])
    moreover have "cfs_write da t2 = cfs_write da t"
      by (rule ext) (simp add: cfs_write_def t2_def t1_def)
    ultimately show ?thesis
      using ism_t igm_t Inr r Inr2 r2 by simp
  qed
qed

lemma cfs_frame:
  assumes "self_model_comp t = self_model_comp s"
  shows "calculate_full_spectrum I sfh da t mc co rm =
     map_sum id (cfs_write da t) (calculate_full_spectrum I sfh da s mc co rm)"
proof (cases "get_t_bc mc")
  case (Inl e)
  then show ?thesis by (simp add: calculate_full_spectrum_def)
next
  case (Inr t_bc)
  obtain sb sp where st: "stellar_spectrum I (ceh_grid sfh) t_bc = (sb, sp)"
    by (cases "stellar_spectrum I (ceh_grid sfh) t_bc")
  show ?thesis
  proof (cases "nebular_stage I sfh mc t_bc co rm sb (map (\<lambda>w. 0) (line_wavs I))")
    case (Inl e)
    with Inr st show ?thesis by (simp add: calculate_full_spectrum_def)
  next
    case neb: (Inr r1)
    obtain sb1 em1 where r1: "r1 = (sb1, em1)" by (cases r1)
    show ?thesis
    proof (cases "bc_dust_stage da (wavelengths I) mc sb1 em1")
      case (Inl e)
      with Inr st neb r1 show ?thesis by (simp add: calculate_full_spectrum_def)
    next
      case bc: (Inr r2)
      obtain sb2 em2 df where r2: "r2 = (sb2, em2, df)" by (cases r2)
      from cfs_tail_frame [OF assms, of I da mc "map2 (+) sp sb2" sb2 df em2]
      show ?thesis
        using Inr st neb r1 bc r2 by (simp add: calculate_full_spectrum_def)
    qed
  qed
qed


lemma resample_frame:
  assumes "self_spectrum_full t = self_spectrum_full s"
  shows "resample I mc t =
     map_sum id (\<lambda>s'. if spec_wavs I = None then t else t\<lparr>self_spectrum := self_spectrum s'\<rparr>)
       (resample I mc s)"
  using assms by (auto simp: resample_def attr_def split: option.splits)

lemma add_agn_frame:
  assumes "self_model_comp t = self_model_comp s"
    and "self_spectrum_full t = self_spectrum_full s"
    and "spec_wavs I \<noteq> None \<longrightarrow> self_spectrum t = self_spectrum s"
  shows "add_agn I t =
     map_sum id (\<lambda>s'. t\<lparr>self_spectrum_full := self_spectrum_full s',
                          self_spectrum := (if spec_wavs I = None then self_spectrum t
                                            else self_spectrum s')\<rparr>)
       (add_agn I s)"
  using assms
  by (auto simp: add_agn_def attr_def bindE_def Let_def split: option.splits sum.splits)

lemma photometry_frame:
  assumes "self_spectrum_full t = self_spectrum_full s"
  shows "photometry_step I mc t =
     map_sum id (\<lambda>s'. if filt_list I = None then t
                       else t\<lparr>self_photometry := self_photometry s'\<rparr>)
       (photometry_step I mc s)"
  using assms
  by (auto simp: photometry_step_def attr_def bindE_def split: option.splits sum.splits)

lemma uvj_frame:
  assumes "self_spectrum_full t = self_spectrum_full s"
  shows "uvj_step I sfh t =
     map_sum id (\<lambda>s'. if unphysical sfh then t else t\<lparr>self_uvj := self_uvj s'\<rparr>)
       (uvj_step I sfh s)"
  using assms
  by (auto simp: uvj_step_def attr_def split: option.splits)

lemma indices_frame:
  assumes "self_spectrum t = self_spectrum s"
  shows "measure_indices I mc t =
     map_sum id (\<lambda>s'. if index_list I = None then t
                       else t\<lparr>self_index_names := self_index_names s',
                              self_indices := self_indices s'\<rparr>)
       (measure_indices I mc s)"
  using assms
  by (auto simp: measure_indices_def attr_def bindE_def Let_def split: option.splits sum.splits)


lemma resample_result:
  assumes "resample I mc s = Inr s'"
  shows "\<exists>x. s' = s\<lparr>self_spectrum := x\<rparr> \<and> (spec_wavs I = None \<longrightarrow> x = self_spectrum s)"
  using assms by (auto simp: resample_def attr_def split: option.splits)

lemma add_agn_result:
  assumes "add_agn I s = Inr s'"
  shows "\<exists>f x. s' = s\<lparr>self_spectrum_full := f, self_spectrum := x\<rparr>
            \<and> (spec_wavs I = None \<longrightarrow> x = self_spectrum s)"
  using assms
  by (auto simp: add_agn_def attr_def bindE_def Let_def split: option.splits sum.splits)
     (metis attrs.surjective attrs.update_convs(2,6))+

lemma photometry_result:
  assumes "photometry_step I mc s = Inr s'"
  shows "\<exists>x. s' = s\<lparr>self_photometry := x\<rparr> \<and> (filt_list I = None \<longrightarrow> x = self_photometry s)"
  using assms
  by (auto simp: photometry_step_def attr_def bindE_def split: option.splits sum.splits)

lemma uvj_result:
  assumes "uvj_step I sfh s = Inr s'"
  shows "\<exists>x. s' = s\<lparr>self_uvj := x\<rparr> \<and> (unphysical sfh \<longrightarrow> x = self_uvj s)"
  using assms
  by (auto simp: uvj_step_def attr_def split: option.splits if_splits)

lemma indices_result:
  assumes "measure_indices I mc s = Inr s'"
  shows "\<exists>n x. s' = s\<lparr>self_index_names := n, self_indices := x\<rparr>
            \<and> (index_list I = None \<longrightarrow> n = self_index_names s \<and> x = self_indices s)"
  using assms
  by (auto simp: measure_indices_def attr_def bindE_def Let_def split: option.splits sum.splits if_splits)


lemma observables_frame:
  assumes mc: "self_model_comp t = self_model_comp s"
    and full: "self_spectrum_full t = self_spectrum_full s"
    and sp: "spec_wavs I = None \<longrightarrow> self_spectrum t = self_spectrum s"
  shows "observables I sfh mc' t = map_sum id (observables_write I sfh t) (observables I sfh mc' s)"
proof (cases "resample I mc' s")
  case (Inl e)
  with resample_frame [OF full, of I mc'] show ?thesis by (simp add: observables_def)
next
  case (Inr s1)
  from resample_result [OF Inr] obtain x1 where
    s1: "s1 = s\<lparr>self_spectrum := x1\<rparr>" and x1: "spec_wavs I = None \<longrightarrow> x1 = self_spectrum s"
    by (elim exE conjE) (rule that)
  define t1 where "t1 = (if spec_wavs I = None then t else t\<lparr>self_spectrum := x1\<rparr>)"
  have r1: "resample I mc' t = Inr t1"
    using resample_frame [OF full, of I mc'] Inr by (simp add: s1 t1_def)
  have a1: "self_model_comp t1 = self_model_comp s1" "self_spectrum_full t1 = self_spectrum_full s1"
    "self_spectrum t1 = self_spectrum s1"
    using mc full sp x1 by (simp_all add: t1_def s1)
  show ?thesis
  proof (cases "add_agn I s1")
    case (Inl e)
    with add_agn_frame [OF a1(1,2), of I] a1(3) r1 Inr show ?thesis
      by (simp add: observables_def)
  next
    case Inr2: (Inr s2)
    from add_agn_result [OF Inr2] obtain f2 x2 where
      s2: "s2 = s1\<lparr>self_spectrum_full := f2, self_spectrum := x2\<rparr>"
      and x2: "spec_wavs I = None \<longrightarrow> x2 = self_spectrum s1"
      by (elim exE conjE) (rule that)
    define t2 where "t2 = t1\<lparr>self_spectrum_full := f2,
       self_spectrum := (if spec_wavs I = None then self_spectrum t1 else x2)\<rparr>"
    have r2: "add_agn I t1 = Inr t2"
      using add_agn_frame [OF a1(1,2), of I] a1(3) Inr2 by (simp add: s2 t2_def)
    have a2: "self_spectrum_full t2 = self_spectrum_full s2" "self_spectrum t2 = self_spectrum s2"
      using a1 x2 by (simp_all add: t2_def s2)
    show ?thesis
    proof (cases "photometry_step I mc' s2")
      case (Inl e)
      with photometry_frame [OF a2(1), of I mc'] r1 r2 Inr Inr2 show ?thesis
        by (simp add: observables_def)
    next
      case Inr3: (Inr s3)
      from photometry_result [OF Inr3] obtain x3 where
        s3: "s3 = s2\<lparr>self_photometry := x3\<rparr>"
        and x3: "filt_list I = None \<longrightarrow> x3 = self_photometry s2"
        by (elim exE conjE) (rule that)
      define t3 where "t3 = (if filt_list I = None then t2 else t2\<lparr>self_photometry := x3\<rparr>)"
      have r3: "photometry_step I mc' t2 = Inr t3"
        using photometry_frame [OF a2(1), of I mc'] Inr3 by (simp add: s3 t3_def)
      have a3: "self_spectrum_full t3 = self_spectrum_full s3" "self_spectrum t3 = self_spectrum s3"
        using a2 by (simp_all add: t3_def s3)
      show ?thesis
      proof (cases "uvj_step I sfh s3")
        case (Inl e)
        with uvj_frame [OF a3(1), of I sfh] r1 r2 r3 Inr Inr2 Inr3 show ?thesis
          by (simp add: observables_def)
      next
        case Inr4: (Inr s4)
        from uvj_result [OF Inr4] obtain x4 where
          s4: "s4 = s3\<lparr>self_uvj := x4\<rparr>" and x4: "unphysical sfh \<longrightarrow> x4 = self_uvj s3"
          by (elim exE conjE) (rule that)
        define t4 where "t4 = (if unphysical sfh then t3 else t3\<lparr>self_uvj := x4\<rparr>)"
        have r4: "uvj_step I sfh t3 = Inr t4"
          using uvj_frame [OF a3(1), of I sfh] Inr4 by (simp add: s4 t4_def)
        have a4: "self_spectrum t4 = self_spectrum s4"
          using a3 by (simp add: t4_def s4)
        show ?thesis
        proof (cases "measure_indices I mc' s4")
          case (Inl e)
          with indices_frame [OF a4, of I mc'] r1 r2 r3 r4 Inr Inr2 Inr3 Inr4 show ?thesis
            by (simp add: observables_def)
        next
          case Inr5: (Inr s5)
          from indices_result [OF Inr5] obtain n5 x5 where
            s5: "s5 = s4\<lparr>self_index_names := n5, self_indices := x5\<rparr>"
            by (elim exE conjE) (rule that)
          define t5 where "t5 = (if index_list I = None then t4
             else t4\<lparr>self_index_names := n5, self_indices := x5\<rparr>)"
          have r5: "measure_indices I mc' t4 = Inr t5"
            using indices_frame [OF a4, of I mc'] Inr5 by (simp add: s5 t5_def)
          have "t5 = observables_write I sfh t s5"
            by (simp add: t5_def t4_def t3_def t2_def t1_def s5 s4 s3 s2 s1 observables_write_def)
          with r1 r2 r3 r4 r5 Inr Inr2 Inr3 Inr4 Inr5 show ?thesis
            by (simp add: observables_def)
        qed
      qed
    qed
  qed
qed


lemma cfs_fields:
  assumes "calculate_full_spectrum I sfh da s mc co rm = Inr s'"
  shows "self_model_comp s' = self_model_comp s" and "self_spectrum s' = self_spectrum s"
    and "self_photometry s' = self_photometry s" and "self_uvj s' = self_uvj s"
    and "self_index_names s' = self_index_names s" and "self_indices s' = self_indices s"
    and "da = None \<Longrightarrow> self_spectrum_bc s' = self_spectrum_bc s"
proof -
  have e: "s' = cfs_write da s s'"
    using cfs_frame [of s s I sfh da mc co rm] assms by simp
  show "self_model_comp s' = self_model_comp s" by (subst e) (simp add: cfs_write_def)
  show "self_spectrum s' = self_spectrum s" by (subst e) (simp add: cfs_write_def)
  show "self_photometry s' = self_photometry s" by (subst e) (simp add: cfs_write_def)
  show "self_uvj s' = self_uvj s" by (subst e) (simp add: cfs_write_def)
  show "self_index_names s' = self_index_names s" by (subst e) (simp add: cfs_write_def)
  show "self_indices s' = self_indices s" by (subst e) (simp add: cfs_write_def)
  show "self_spectrum_bc s' = self_spectrum_bc s" if "da = None"
    using that by (subst e) (simp add: cfs_write_def)
qed

lemma observables_fields:
  assumes "observables I sfh mc s = Inr s'"
  shows "self_model_comp s' = self_model_comp s" and "self_spectrum_bc s' = self_spectrum_bc s"
    and "self_line_fluxes s' = self_line_fluxes s" and "self_lum_flux s' = self_lum_flux s"
    and "unphysical sfh \<Longrightarrow> self_uvj s' = self_uvj s"
    and "spec_wavs I = None \<Longrightarrow> self_spectrum s' = self_spectrum s"
    and "filt_list I = None \<Longrightarrow> self_photometry s' = self_photometry s"
    and "index_list I = None \<Longrightarrow> self_index_names s' = self_index_names s"
    and "index_list I = None \<Longrightarrow> self_indices s' = self_indices s"
proof -
  have e: "s' = observables_write I sfh s s'"
    using observables_frame [of s s I sfh mc] assms by simp
  show "self_model_comp s' = self_model_comp s" by (subst e) (simp add: observables_write_def)
  show "self_spectrum_bc s' = self_spectrum_bc s" by (subst e) (simp add: observables_write_def)
  show "self_line_fluxes s' = self_line_fluxes s" by (subst e) (simp add: observables_write_def)
  show "self_lum_flux s' = self_lum_flux s" by (subst e) (simp add: observables_write_def)
  show "self_uvj s' = self_uvj s" if "unphysical sfh"
    using that by (subst e) (simp add: observables_write_def)
  show "self_spectrum s' = self_spectrum s" if "spec_wavs I = None"
    using that by (subst e) (simp add: observables_write_def)
  show "self_photometry s' = self_photometry s" if "filt_list I = None"
    using that by (subst e) (simp add: observables_write_def)
  show "self_index_names s' = self_index_names s" if "index_list I = None"
    using that by (subst e) (simp add: observables_write_def)
  show "self_indices s' = self_indices s" if "index_list I = None"
    using that by (subst e) (simp add: observables_write_def)
qed

lemma update_dust_None: "update_dust I mc = Inr da \<Longrightarrow> da = None \<longleftrightarrow> dust_atten I = None"
  by (auto simp: update_dust_def bindE_def split: option.splits sum.splits)

lemma update_frame:
  assumes sp: "spec_wavs I = None \<longrightarrow> self_spectrum t = self_spectrum s"
  shows "update I t mc co rm =
     map_sum id (\<lambda>(s', w). (update_write I mc t s', w)) (update I s mc co rm)"
proof (cases "update_dust I mc")
  case (Inl e)
  then show ?thesis by (simp add: update_def)
next
  case (Inr da)
  define sfh where "sfh = sfh_update I mc"
  show ?thesis
  proof (cases "unphysical sfh")
    case True
    define s0 where "s0 = s\<lparr>self_model_comp := Some mc,
      self_spectrum_full := Some (map (\<lambda>w. 0) (wavelengths I)), self_uvj := Some [0, 0, 0]\<rparr>"
    define t0 where "t0 = t\<lparr>self_model_comp := Some mc,
      self_spectrum_full := Some (map (\<lambda>w. 0) (wavelengths I)), self_uvj := Some [0, 0, 0]\<rparr>"
    have us: "update I s mc co rm =
        bindE (observables I sfh mc s0) (\<lambda>s'. Inr (s', [big_bang_warning]))"
      and ut: "update I t mc co rm =
        bindE (observables I sfh mc t0) (\<lambda>s'. Inr (s', [big_bang_warning]))"
      using Inr True by (simp_all add: update_def sfh_def s0_def t0_def)
    have fr: "observables I sfh mc t0 =
        map_sum id (observables_write I sfh t0) (observables I sfh mc s0)"
      using sp by (intro observables_frame) (simp_all add: s0_def t0_def)
    show ?thesis
    proof (cases "observables I sfh mc s0")
      case (Inl e)
      with fr us ut show ?thesis by simp
    next
      case o: (Inr s')
      have "observables_write I sfh t0 s' = update_write I mc t s'"
        using observables_fields [OF o] True
        by (simp add: observables_write_def update_write_def t0_def s0_def sfh_def)
      with fr us ut o show ?thesis by simp
    qed
  next
    case False
    define sm where "sm = s\<lparr>self_model_comp := Some mc\<rparr>"
    define tm where "tm = t\<lparr>self_model_comp := Some mc\<rparr>"
    have us: "update I s mc co rm =
        bindE (calculate_full_spectrum I sfh da sm mc co rm) (\<lambda>s1.
          bindE (observables I sfh mc s1) (\<lambda>s'. Inr (s', [])))"
      and ut: "update I t mc co rm =
        bindE (calculate_full_spectrum I sfh da tm mc co rm) (\<lambda>s1.
          bindE (observables I sfh mc s1) (\<lambda>s'. Inr (s', [])))"
      using Inr False by (simp_all add: update_def sfh_def sm_def tm_def Let_def bindE_assoc)
    have cf: "calculate_full_spectrum I sfh da tm mc co rm =
        map_sum id (cfs_write da tm) (calculate_full_spectrum I sfh da sm mc co rm)"
      by (rule cfs_frame) (simp add: sm_def tm_def)
    show ?thesis
    proof (cases "calculate_full_spectrum I sfh da sm mc co rm")
      case (Inl e)
      with cf us ut show ?thesis by simp
    next
      case c: (Inr s1)
      define t1 where "t1 = cfs_write da tm s1"
      note k1 = cfs_fields [OF c]
      have fr: "observables I sfh mc t1 =
          map_sum id (observables_write I sfh t1) (observables I sfh mc s1)"
        using sp k1(1,2) by (intro observables_frame) (simp_all add: t1_def cfs_write_def sm_def tm_def)
      show ?thesis
      proof (cases "observables I sfh mc s1")
        case (Inl e)
        with cf fr us ut c show ?thesis by (simp add: t1_def)
      next
        case o: (Inr s')
        have "observables_write I sfh t1 s' = update_write I mc t s'"
          using observables_fields(1-4) [OF o] k1(1) False update_dust_None [OF Inr]
          by (simp add: observables_write_def update_write_def t1_def cfs_write_def tm_def sm_def
              sfh_def)
        with cf fr us ut c o show ?thesis by (simp add: t1_def)
      qed
    qed
  qed
qed

lemma update_write_same: "update_write I mc s s = s"
  by (simp add: update_write_def)

lemma update_model_comp:
  assumes "update I s mc co rm = Inr (s', w)"
  shows "self_model_comp s' = Some mc"
proof -
  from assms obtain da where da: "update_dust I mc = Inr da"
    by (cases "update_dust I mc") (simp_all add: update_def)
  show ?thesis
  proof (cases "unphysical (sfh_update I mc)")
    case True
    define s0 where "s0 = s\<lparr>self_model_comp := Some mc,
      self_spectrum_full := Some (map (\<lambda>w. 0) (wavelengths I)), self_uvj := Some [0, 0, 0]\<rparr>"
    have o: "observables I (sfh_update I mc) mc s0 = Inr s'"
      using assms da True by (auto simp: update_def Let_def bindE_eq_Inr s0_def)
    from observables_fields(1) [OF o] show ?thesis by (simp add: s0_def)
  next
    case False
    with assms da obtain s1 where c: "calculate_full_spectrum I (sfh_update I mc) da
        (s\<lparr>self_model_comp := Some mc\<rparr>) mc co rm = Inr s1"
      and o: "observables I (sfh_update I mc) mc s1 = Inr s'"
      by (auto simp: update_def Let_def bindE_eq_Inr)
    from cfs_fields(1) [OF c] observables_fields(1) [OF o] show ?thesis by simp
  qed
qed

subsection \<open>Calling update twice\<close>

text \<open>
  C3. For every instance, state, model-components dictionary, \<^verbatim>\<open>cont_only\<close> and
  \<^verbatim>\<open>rm_line\<close>: when a call of \<^verbatim>\<open>update\<close> returns, a second call with the same
  arguments returns the same attributes (full spectrum, resampled spectrum, line fluxes,
  photometry, UVJ magnitudes, indices and the rest) and emits the same warnings. Nothing
  accumulates from one call to the next.
\<close>

theorem update_twice:
  assumes "update I s mc co rm = Inr (s1, w)"
  shows "update I s1 mc co rm = Inr (s1, w)"
proof -
  have "s1 = update_write I mc s s1"
    using update_frame [of I s s mc co rm] assms by simp
  then have e: "self_spectrum s1 = self_spectrum (update_write I mc s s1)" by simp
  have "spec_wavs I = None \<longrightarrow> self_spectrum s1 = self_spectrum s"
  proof
    assume "spec_wavs I = None"
    then have "self_spectrum (update_write I mc s s1) = self_spectrum s"
      by (simp add: update_write_def)
    with e show "self_spectrum s1 = self_spectrum s" by simp
  qed
  from update_frame [OF this, of mc co rm] assms show ?thesis
    by (simp add: update_write_same)
qed
theorem update_twice_witness:
  "update demo no_attrs young_burst False (Some [''H  1  1215.67A'']) = Inr (demo_first, [])
   \<and> update demo demo_first young_burst False (Some [''H  1  1215.67A'']) = Inr (demo_first, [])"
proof -
  have first: "update demo no_attrs young_burst False (Some [''H  1  1215.67A'']) = Inr (demo_first, [])"
    by (simp add: run_simps demo_simps demo_first_def upt_rec float64_values)
  from update_twice [OF first] first show ?thesis by simp
qed

subsection \<open>An unphysical star-formation history\<close>






lemma np_interp_total:
  assumes "xp \<noteq> []" and "length xp = length fp"
  shows "\<exists>v. np_interp x xp fp l r = Inr v"
  using assms by (simp add: np_interp_def)

lemma np_interp_arr_total:
  assumes "xp \<noteq> []" and "length xp = length fp"
  shows "\<exists>vs. np_interp_arr xs xp fp l r = Inr vs"
proof (induction xs)
  case Nil
  with assms show ?case by simp
next
  case (Cons x xs)
  from np_interp_total [OF assms] obtain v where "np_interp x xp fp l r = Inr v" by blast
  with Cons show ?case by auto
qed

text \<open>
  C2. For every update call with an unphysical star-formation history on parameters that
  meet the preconditions of \<^verbatim>\<open>update\<close> (the redshift is a number; the \<^verbatim>\<open>dust\<close> and
  \<^verbatim>\<open>agn\<close> entries are present when the instance has the component; the AGN and IGM
  arrays are sampled on a non-empty wavelength grid; an index list comes with an output
  grid): the call returns with the one warning and raises nothing, and afterwards the UVJ
  magnitudes are three zeros. The full spectrum is all zeros over the wavelength grid when
  the instance has no AGN component; with an AGN component it is the zeros plus the AGN
  spectrum times the IGM transmission over \<open>1 + z\<close>.
\<close>

theorem unphysical_update:
  assumes u: "unphysical (sfh_update I mc)"
    and z: "map_of mc ''redshift'' = Some (Num z)"
    and d: "dust_atten I \<noteq> None \<longrightarrow> map_of mc ''dust'' \<noteq> None"
    and a: "agn I \<noteq> None \<longrightarrow> map_of mc ''agn'' \<noteq> None"
    and shape: "agn I \<noteq> None \<and> spec_wavs I \<noteq> None \<longrightarrow> wavelengths I \<noteq> []
        \<and> (\<forall>am av. agn I = Some am \<longrightarrow>
              length (map2 (*) (am av) (igm_trans I z)) = length (wavelengths I))"
    and ix: "index_list I \<noteq> None \<longrightarrow> spec_wavs I \<noteq> None"
  shows "\<exists>s'. update I s mc co rm = Inr (s', [big_bang_warning])
          \<and> self_uvj s' = Some [0, 0, 0]
          \<and> (agn I = None \<longrightarrow> self_spectrum_full s' = Some (map (\<lambda>w. 0) (wavelengths I)))
          \<and> (\<forall>am av. agn I = Some am \<and> map_of mc ''agn'' = Some av \<longrightarrow>
                self_spectrum_full s' =
                  Some (map2 (+) (map (\<lambda>w. 0) (wavelengths I))
                          (map (\<lambda>v. v / (1 + z)) (map2 (*) (am av) (igm_trans I z)))))"
proof -
  define s0 where "s0 = s\<lparr>self_model_comp := Some mc,
      self_spectrum_full := Some (map (\<lambda>w. 0) (wavelengths I)), self_uvj := Some [0, 0, 0]\<rparr>"
  define sfh where "sfh = sfh_update I mc"
  obtain da where da: "update_dust I mc = Inr da"
    using d by (cases "dust_atten I") (auto simp: update_dust_def getitem_def)
  have up: "update I s mc co rm =
      bindE (observables I sfh mc s0) (\<lambda>s'. Inr (s', [big_bang_warning]))"
    using da u by (simp add: update_def s0_def sfh_def)
  have rz: "getitem mc ''redshift'' = Inr (Num z)"
    using z by (simp add: getitem_def)
  \<comment> \<open>the spectrum on the output wavelengths\<close>
  define s1 where "s1 = (case spec_wavs I of None \<Rightarrow> s0
     | Some sw \<Rightarrow> s0\<lparr>self_spectrum := Some (calculate_spectrum I mc (map (\<lambda>w. 0) (wavelengths I)))\<rparr>)"
  have r1: "resample I mc s0 = Inr s1"
    by (simp add: resample_def s1_def s0_def split: option.splits)
  have f1: "self_spectrum_full s1 = Some (map (\<lambda>w. 0) (wavelengths I))"
    and m1: "self_model_comp s1 = Some mc" and u1: "self_uvj s1 = Some [0, 0, 0]"
    and p1: "spec_wavs I \<noteq> None \<longrightarrow> self_spectrum s1 \<noteq> None"
    by (auto simp: s1_def s0_def split: option.splits)
  \<comment> \<open>the AGN component\<close>
  have "\<exists>s2. add_agn I s1 = Inr s2 \<and> self_uvj s2 = Some [0, 0, 0]
          \<and> (spec_wavs I \<noteq> None \<longrightarrow> self_spectrum s2 \<noteq> None)
          \<and> (agn I = None \<longrightarrow> self_spectrum_full s2 = Some (map (\<lambda>w. 0) (wavelengths I)))
          \<and> (\<forall>am av. agn I = Some am \<and> map_of mc ''agn'' = Some av \<longrightarrow>
                self_spectrum_full s2 =
                  Some (map2 (+) (map (\<lambda>w. 0) (wavelengths I))
                          (map (\<lambda>v. v / (1 + z)) (map2 (*) (am av) (igm_trans I z)))))"
  proof (cases "agn I")
    case None
    with f1 u1 p1 show ?thesis by (simp add: add_agn_def)
  next
    case (Some am)
    with a obtain av where av: "map_of mc ''agn'' = Some av" by auto
    show ?thesis
    proof (cases "spec_wavs I")
      case None
      with Some av f1 u1 m1 rz show ?thesis
        by (simp add: add_agn_def getitem_def as_num_def Let_def)
    next
      case sw: (Some sw)
      from p1 sw obtain sp where sp: "self_spectrum s1 = Some sp" by auto
      from shape Some sw have "map (\<lambda>w. w * (z + 1)) (wavelengths I) \<noteq> []"
        and "length (map (\<lambda>w. w * (z + 1)) (wavelengths I))
             = length (map (\<lambda>v. v / (z + 1)) (map2 (*) (am av) (igm_trans I z)))"
        by auto
      from np_interp_arr_total [OF this]
      obtain vs where "np_interp_arr sw (map (\<lambda>w. w * (z + 1)) (wavelengths I))
           (map (\<lambda>v. v / (z + 1)) (map2 (*) (am av) (igm_trans I z))) 0 0 = Inr vs"
        by blast
      with Some av f1 u1 m1 rz sw sp show ?thesis
        by (simp add: add_agn_def getitem_def as_num_def Let_def)
    qed
  qed
  then obtain s2 where r2: "add_agn I s1 = Inr s2" and u2: "self_uvj s2 = Some [0, 0, 0]"
    and p2: "spec_wavs I \<noteq> None \<longrightarrow> self_spectrum s2 \<noteq> None"
    and f2: "agn I = None \<longrightarrow> self_spectrum_full s2 = Some (map (\<lambda>w. 0) (wavelengths I))"
    and g2: "\<forall>am av. agn I = Some am \<and> map_of mc ''agn'' = Some av \<longrightarrow>
                self_spectrum_full s2 =
                  Some (map2 (+) (map (\<lambda>w. 0) (wavelengths I))
                          (map (\<lambda>v. v / (1 + z)) (map2 (*) (am av) (igm_trans I z))))"
    by (elim exE conjE) (rule that)
  have e2: "\<exists>f. self_spectrum_full s2 = Some f"
    using f2 g2 a by (cases "agn I") auto
  \<comment> \<open>photometry, UVJ magnitudes and indices\<close>
  from e2 obtain s3 where r3: "photometry_step I mc s2 = Inr s3"
    and k3: "self_uvj s3 = self_uvj s2" "self_spectrum_full s3 = self_spectrum_full s2"
      "self_spectrum s3 = self_spectrum s2"
    using rz by (cases "filt_list I") (auto simp: photometry_step_def as_num_def)
  have r4: "uvj_step I sfh s3 = Inr s3"
    using u by (simp add: uvj_step_def sfh_def)
  obtain s5 where r5: "measure_indices I mc s3 = Inr s5"
    and k5: "self_uvj s5 = self_uvj s3" "self_spectrum_full s5 = self_spectrum_full s3"
  proof (cases "index_list I")
    case None
    then have "measure_indices I mc s3 = Inr s3" by (simp add: measure_indices_def)
    then show ?thesis using that by simp
  next
    case (Some il)
    with ix p2 k3 obtain sp where "self_spectrum s3 = Some sp" by auto
    with Some rz show ?thesis
      using that by (cases "il = []") (simp_all add: measure_indices_def as_num_def Let_def)
  qed
  have "observables I sfh mc s0 = Inr s5"
    using r1 r2 r3 r4 r5 by (simp add: observables_def)
  with up u2 f2 g2 k3 k5 show ?thesis by simp
qed
theorem unphysical_update_witness:
  "(\<exists>s'. update demo_full no_attrs old_burst False None = Inr (s', [big_bang_warning])
        \<and> self_uvj s' = Some [0, 0, 0]
        \<and> self_spectrum_full s' = Some [3, 3, 3, 3])
   \<and> (\<exists>s'. update demo_dust no_attrs old_burst False None = Inr (s', [big_bang_warning])
        \<and> self_uvj s' = Some [0, 0, 0]
        \<and> self_spectrum_full s' = Some [0, 0, 0, 0])"
proof -
  have u: "unphysical (sfh_update demo_full old_burst)"
    and u': "unphysical (sfh_update demo_dust old_burst)"
    by (simp_all add: demo_full_def demo_simps)
  have z: "map_of old_burst ''redshift'' = Some (Num 0)"
    by (simp add: old_burst_def)
  have d: "dust_atten demo_full \<noteq> None \<longrightarrow> map_of old_burst ''dust'' \<noteq> None"
    and d': "dust_atten demo_dust \<noteq> None \<longrightarrow> map_of old_burst ''dust'' \<noteq> None"
    and a: "agn demo_full \<noteq> None \<longrightarrow> map_of old_burst ''agn'' \<noteq> None"
    and a': "agn demo_dust \<noteq> None \<longrightarrow> map_of old_burst ''agn'' \<noteq> None"
    by (simp_all add: old_burst_def)
  have sh: "agn demo_full \<noteq> None \<and> spec_wavs demo_full \<noteq> None \<longrightarrow> wavelengths demo_full \<noteq> []
        \<and> (\<forall>am av. agn demo_full = Some am \<longrightarrow>
              length (map2 (*) (am av) (igm_trans demo_full 0)) = length (wavelengths demo_full))"
    and sh': "agn demo_dust \<noteq> None \<and> spec_wavs demo_dust \<noteq> None \<longrightarrow> wavelengths demo_dust \<noteq> []
        \<and> (\<forall>am av. agn demo_dust = Some am \<longrightarrow>
              length (map2 (*) (am av) (igm_trans demo_dust 0)) = length (wavelengths demo_dust))"
    by (auto simp: demo_full_def demo_simps)
  have ix: "index_list demo_full \<noteq> None \<longrightarrow> spec_wavs demo_full \<noteq> None"
    and ix': "index_list demo_dust \<noteq> None \<longrightarrow> spec_wavs demo_dust \<noteq> None"
    by (simp_all add: demo_full_def demo_simps)
  have ag: "agn demo_full = Some (\<lambda>a. [3, 3, 3, 3])"
      "map_of old_burst ''agn'' = Some (Dict [(''alphalam'', Num (- 1))])"
      "igm_trans demo_full 0 = [1, 1, 1, 1]" "wavelengths demo_full = [800, 1000, 1200, 1400]"
    and ag': "agn demo_dust = None" "wavelengths demo_dust = [800, 1000, 1200, 1400]"
    by (simp_all add: demo_full_def demo_simps)
  from unphysical_update [OF u z d a sh ix, of no_attrs False None]
    unphysical_update [OF u' z d' a' sh' ix', of no_attrs False None]
  show ?thesis
    by (auto simp: ag ag')
qed

text \<open>With an AGN component the full spectrum after the call is not zero.\<close>

theorem unphysical_agn_counterexample:
  "unphysical (sfh_update demo_agn old_burst)
   \<and> update demo_agn no_attrs old_burst False None =
       Inr (no_attrs\<lparr>self_model_comp := Some old_burst,
                      self_spectrum_full := Some [3, 3, 3, 3],
                      self_uvj := Some [0, 0, 0]\<rparr>, [big_bang_warning])
   \<and> [3, 3, 3, 3] \<noteq> map (\<lambda>w. 0 :: real) (wavelengths demo_agn)"
  by (simp add: run_simps demo_simps)

subsection \<open>The nebular metallicity\<close>

lemma set_metallicity_nth:
  assumes "i < length mc"
  shows "set_metallicity m mc ! i =
     (case snd (mc ! i) of
        Dict c \<Rightarrow> (fst (mc ! i), Dict (AList.update ''metallicity'' m c))
      | v \<Rightarrow> (fst (mc ! i), v))"
  using assms by (simp add: set_metallicity_def split: prod.splits pval.splits)

text \<open>
  C5. When the nebular dictionary declares a metallicity \<open>m\<close>, the grid for the nebular
  emission is that of the nebular star-formation history updated with
  \<open>set_metallicity m mc\<close>: the model components in their order, where every entry that is
  a dictionary has \<open>m\<close> stored under \<^verbatim>\<open>metallicity\<close> and its other keys as they were,
  whether it declared a metallicity or not, and every other entry is unchanged. The
  dictionary of the caller is not modified: it is what the attribute \<^verbatim>\<open>model_comp\<close> holds
  when \<^verbatim>\<open>update\<close> returns.
\<close>

theorem metallicity_override:
  assumes "map_of d ''metallicity'' = Some m"
  shows "nebular_grid I sfh mc (Dict d) = Inr (ceh_grid (neb_sfh_update I (set_metallicity m mc)))
       \<and> length (set_metallicity m mc) = length mc
       \<and> (\<forall>i<length mc.
             fst (set_metallicity m mc ! i) = fst (mc ! i)
             \<and> (case snd (mc ! i) of
                  Dict c \<Rightarrow>
                    snd (set_metallicity m mc ! i) = Dict (AList.update ''metallicity'' m c)
                    \<and> map_of (AList.update ''metallicity'' m c) ''metallicity'' = Some m
                    \<and> (\<forall>k. k \<noteq> ''metallicity'' \<longrightarrow>
                          map_of (AList.update ''metallicity'' m c) k = map_of c k)
                | v \<Rightarrow> snd (set_metallicity m mc ! i) = v))
       \<and> (\<forall>s' w. update I s mc co rm = Inr (s', w) \<longrightarrow> self_model_comp s' = Some mc)"
proof -
  have "''metallicity'' \<in> set (map fst d)"
    using assms by (metis map_of_eq_None_iff option.distinct(1) set_map)
  then have "nebular_grid I sfh mc (Dict d)
      = Inr (ceh_grid (neb_sfh_update I (set_metallicity m mc)))"
    using assms by (simp add: nebular_grid_def in_list_def subscript_def getitem_def)
  moreover have "length (set_metallicity m mc) = length mc"
    by (simp add: set_metallicity_def)
  moreover have "\<forall>i<length mc.
             fst (set_metallicity m mc ! i) = fst (mc ! i)
             \<and> (case snd (mc ! i) of
                  Dict c \<Rightarrow>
                    snd (set_metallicity m mc ! i) = Dict (AList.update ''metallicity'' m c)
                    \<and> map_of (AList.update ''metallicity'' m c) ''metallicity'' = Some m
                    \<and> (\<forall>k. k \<noteq> ''metallicity'' \<longrightarrow>
                          map_of (AList.update ''metallicity'' m c) k = map_of c k)
                | v \<Rightarrow> snd (set_metallicity m mc ! i) = v)"
    by (auto simp: set_metallicity_nth update_conv' split: pval.splits)
  moreover have "\<forall>s' w. update I s mc co rm = Inr (s', w) \<longrightarrow> self_model_comp s' = Some mc"
    using update_model_comp by blast
  ultimately show ?thesis by blast
qed

theorem metallicity_override_witness:
  "nebular_grid demo \<lparr>unphysical = False, ceh_grid = [[1]]\<rparr> metal_burst
        (Dict [(''logU'', Num (- 3)), (''metallicity'', Num 0.5)]) =
     Inr (ceh_grid (neb_sfh_update demo (set_metallicity (Num 0.5) metal_burst)))
   \<and> set_metallicity (Num 0.5) metal_burst =
       [(''redshift'', Num 0),
        (''burst'', Dict [(''age'', Num 1), (''massformed'', Num 10), (''metallicity'', Num 0.5)]),
        (''dust'', Dict [(''type'', Str ''Calzetti''), (''Av'', Num 2.5),
                         (''metallicity'', Num 0.5)]),
        (''nebular'', Dict [(''logU'', Num (- 3)), (''metallicity'', Num 0.5)])]"
proof -
  have m: "map_of [(''logU'', Num (- 3)), (''metallicity'', Num 0.5)] ''metallicity''
             = Some (Num 0.5)"
    by simp
  from metallicity_override [OF m, of demo "\<lparr>unphysical = False, ceh_grid = [[1]]\<rparr>" metal_burst]
  show ?thesis
    by (simp add: set_metallicity_def metal_burst_def)
qed
text \<open>A component that declares no metallicity is not passed through unchanged: the
  dictionary handed to the nebular star-formation history is not the one in which only
  the declared metallicities are replaced.\<close>

theorem metallicity_override_counterexample:
  "map_of metal_burst ''dust'' = Some (Dict [(''type'', Str ''Calzetti''), (''Av'', Num 2.5)])
   \<and> map_of (set_metallicity (Num 0.5) metal_burst) ''dust'' =
       Some (Dict [(''type'', Str ''Calzetti''), (''Av'', Num 2.5), (''metallicity'', Num 0.5)])
   \<and> set_metallicity (Num 0.5) metal_burst \<noteq> set_declared_metallicity (Num 0.5) metal_burst
   \<and> nebular_grid demo \<lparr>unphysical = False, ceh_grid = [[1]]\<rparr> metal_burst
        (Dict [(''logU'', Num (- 3)), (''metallicity'', Num 0.5)]) = Inr [[- 2, 0.5, 0.5, 0.5]]
   \<and> ceh_grid (neb_sfh_update demo (set_declared_metallicity (Num 0.5) metal_burst))
        = [[- 2, 0.5, - 1, 0.5]]"
  by (simp add: run_simps demo_simps set_declared_metallicity_def)


subsection \<open>The energy balance of dust attenuation and emission\<close>






subsection \<open>The damped absorber\<close>

text \<open>Bounds on the approximation of the Voigt-Hjerting profile far from the line centre:
  there \<open>exp (- x ^ 2)\<close> is negligible and the profile is close to
  \<open>a / sqrt pi / x ^ 2\<close>, so two abscissae whose squares differ by a factor of four
  have different profiles.\<close>

lemma exp_neg_le:
  assumes "0 < (P::real)"
  shows "exp (- P) \<le> 2 / P ^ 2"
proof -
  have "P ^ 2 / 2 \<le> 1 + P + P ^ 2 / 2" using assms by simp
  also have "\<dots> \<le> exp P" using assms exp_lower_Taylor_quadratic [of P] by simp
  finally have "P ^ 2 / 2 \<le> exp P" .
  moreover have "0 < P ^ 2 / 2" using assms by simp
  ultimately have "1 / exp P \<le> 1 / (P ^ 2 / 2)"
    by (intro divide_left_mono) (simp_all add: assms)
  then show ?thesis by (simp add: exp_minus inverse_eq_divide)
qed

lemma H_unfold:
  "H a x = exp (- (x ^ 2)) - a / sqrt pi / x ^ 2 *
      ((exp (- (x ^ 2))) ^ 2 * (4 * (x ^ 2) ^ 2 + 7 * x ^ 2 + 4 + 1.5 / x ^ 2) - 1.5 / x ^ 2 - 1)"
  by (simp add: H_def Let_def power_int_minus inverse_eq_divide)

lemma H_upper:
  assumes a: "0 < a" and P: "0 < x ^ 2"
  shows "H a x \<le> 2 / (x ^ 2) ^ 2 + a / sqrt pi / x ^ 2 * (1 + 1.5 / x ^ 2)"
proof -
  define P where "P = x ^ 2"
  define k where "k = a / sqrt pi / P"
  define E where "E = exp (- P)"
  have kpos: "0 < k" using a P by (simp add: k_def P_def)
  have Ppos: "0 < P" using P by (simp add: P_def)
  have E: "0 < E" "E \<le> 2 / P ^ 2" using exp_neg_le [OF Ppos] by (simp_all add: E_def)
  have "0 \<le> E ^ 2 * (4 * P ^ 2 + 7 * P + 4 + 1.5 / P)"
    using Ppos by (intro mult_nonneg_nonneg add_nonneg_nonneg) simp_all
  then have "0 \<le> k * (E ^ 2 * (4 * P ^ 2 + 7 * P + 4 + 1.5 / P))"
    using kpos by simp
  then have "E - k * (E ^ 2 * (4 * P ^ 2 + 7 * P + 4 + 1.5 / P) - 1.5 / P - 1)
      \<le> E + k * (1 + 1.5 / P)"
    by (simp add: algebra_simps)
  also have "\<dots> \<le> 2 / P ^ 2 + k * (1 + 1.5 / P)" using E by simp
  finally show ?thesis
    unfolding H_unfold P_def k_def E_def .
qed

lemma H_lower:
  assumes a: "0 < a" and P: "7 \<le> x ^ 2"
  shows "a / sqrt pi / x ^ 2 * (1 - 28 / (x ^ 2) ^ 2) \<le> H a x"
proof -
  define P where "P = x ^ 2"
  define k where "k = a / sqrt pi / P"
  define E where "E = exp (- P)"
  define S where "S = 4 * P ^ 2 + 7 * P + 4 + 1.5 / P"
  have P7: "7 \<le> P" using P by (simp add: P_def)
  then have Ppos: "0 < P" by linarith
  have kpos: "0 < k" using a Ppos by (simp add: k_def)
  have E: "0 < E" "E \<le> 2 / P ^ 2" using exp_neg_le [OF Ppos] by (simp_all add: E_def)
  have "7 * P \<le> P * P" using P7 Ppos by (intro mult_right_mono) simp_all
  then have p2: "7 * P \<le> P ^ 2" by (simp add: power2_eq_square)
  then have p49: "49 \<le> P ^ 2" using P7 by linarith
  have "1.5 / P \<le> 1.5 / 1" using Ppos P7 by (intro divide_left_mono) simp_all
  then have S7: "S \<le> 7 * P ^ 2" using p2 p49 by (simp add: S_def)
  have Spos: "0 \<le> S" using Ppos by (simp add: S_def)
  have E2: "E ^ 2 \<le> (2 / P ^ 2) ^ 2" using E by (intro power_mono) simp_all
  have "E ^ 2 * S \<le> (2 / P ^ 2) ^ 2 * (7 * P ^ 2)"
    using S7 Spos E2 Ppos by (intro mult_mono) simp_all
  also have "\<dots> = 28 / P ^ 2" using Ppos by (simp add: field_simps power2_eq_square)
  finally have ES: "E ^ 2 * S \<le> 28 / P ^ 2" .
  have q0: "0 \<le> 1.5 / P" using Ppos by simp
  have "1 - 28 / P ^ 2 \<le> 1.5 / P + 1 - E ^ 2 * S" using ES q0 by linarith
  then have "k * (1 - 28 / P ^ 2) \<le> k * (1.5 / P + 1 - E ^ 2 * S)"
    using kpos by (intro mult_left_mono) simp_all
  also have "\<dots> \<le> E - k * (E ^ 2 * S - 1.5 / P - 1)"
    using E by (simp add: algebra_simps)
  finally show ?thesis
    unfolding H_unfold P_def k_def E_def S_def .
qed

lemma H_far_apart:
  assumes a: "sqrt pi \<le> a" and P1: "10 \<le> x1 ^ 2" and P2: "4 * x1 ^ 2 \<le> x2 ^ 2"
  shows "H a x2 < H a x1"
proof -
  define k where "k = a / sqrt pi"
  define P where "P = x1 ^ 2"
  define R where "R = x2 ^ 2"
  have sp: "0 < sqrt pi" by simp
  have a0: "0 < a" using a sp by linarith
  have k1: "1 \<le> k" using a sp by (simp add: k_def)
  have P10: "10 \<le> P" and R4: "4 * P \<le> R" using P1 P2 by (simp_all add: P_def R_def)
  have Rpos: "0 < R" and R40: "40 \<le> R" using P10 R4 by linarith+
  have Ppos: "0 < P" using P10 by linarith
  have up: "H a x2 \<le> 2 / R ^ 2 + k / R * (1 + 1.5 / R)"
    using H_upper [OF a0, of x2] Rpos by (simp add: R_def k_def)
  have lo: "k / P * (1 - 28 / P ^ 2) \<le> H a x1"
    using H_lower [OF a0, of x1] P10 by (simp add: P_def k_def)
  have "100 \<le> P ^ 2" using P10 Ppos power_mono [of 10 P 2] by simp
  then have "28 / P ^ 2 \<le> 28 / 100" using Ppos by (intro divide_left_mono) simp_all
  then have "k / P * (72 / 100) \<le> k / P * (1 - 28 / P ^ 2)"
    using k1 Ppos by (intro mult_left_mono) simp_all
  with lo have lo': "k / P * (72 / 100) \<le> H a x1" by linarith
  have r1: "1 / R \<le> 1 / 40" using R40 by (intro divide_left_mono) simp_all
  have "2 / R ^ 2 = (1 / R) * (2 / R)" by (simp add: power2_eq_square)
  also have "\<dots> \<le> (k / R) * (2 / R)"
    using k1 Rpos by (intro mult_right_mono divide_right_mono) simp_all
  finally have t1: "2 / R ^ 2 \<le> k / R * (2 / R)" .
  have "2 / R ^ 2 + k / R * (1 + 1.5 / R) \<le> k / R * (2 / R) + k / R * (1 + 1.5 / R)"
    using t1 by simp
  also have "\<dots> = k / R * (1 + 3.5 * (1 / R))" by (simp add: algebra_simps)
  also have "\<dots> \<le> k / R * (1 + 3.5 * (1 / 40))"
    using r1 k1 Rpos by (intro mult_left_mono add_left_mono) simp_all
  also have "\<dots> \<le> k / (4 * P) * (1 + 3.5 * (1 / 40))"
    using R4 k1 Ppos by (intro mult_right_mono divide_left_mono) simp_all
  also have "\<dots> < k / P * (72 / 100)"
    using k1 Ppos by (simp add: field_simps)
  finally have "2 / R ^ 2 + k / R * (1 + 1.5 / R) < k / P * (72 / 100)" .
  with up lo' show ?thesis by linarith
qed


lemma damping_large: "sqrt pi \<le> 1215.67 * (1.0 / 10 ^ 8) * (6.265 * 10 ^ 8) / (4.0 * pi * 1)"
proof -
  have "sqrt pi < sqrt (2 ^ 2)" using pi_less_4 by (intro real_sqrt_less_mono) simp
  then have s: "sqrt pi < 2" by simp
  have p: "pi * sqrt pi < 4 * 2"
    using s pi_less_4 by (intro mult_strict_mono) simp_all
  have "sqrt pi * (4 * pi) = 4 * (pi * sqrt pi)" by simp
  then have "sqrt pi * (4 * pi) \<le> 7616" using p by linarith
  moreover have "0 < 4 * pi" using pi_gt_zero by simp
  ultimately have "sqrt pi \<le> 7616 / (4 * pi)"
    by (simp only: pos_le_divide_eq)
  also have "7616 / (4 * pi) \<le> (1215.67 * (1.0 / 10 ^ 8) * (6.265 * 10 ^ 8)) / (4 * pi)"
    using pi_gt_zero by (intro divide_right_mono) simp_all
  also have "\<dots> = 1215.67 * (1.0 / 10 ^ 8) * (6.265 * 10 ^ 8) / (4.0 * pi * 1)"
    by simp
  finally show ?thesis .
qed

text \<open>
  C1. The call at the failing input: the grid of \<open>demo\<close>, a redshift of 1 and an absorber
  with \<open>t = 2 * 10 ^ 20\<close> at \<open>zabs = 0\<close>. The stage multiplies the spectrum by the
  transmission of \<^verbatim>\<open>addAbs\<close> at the grid times the redshift, here the rest-frame grid
  itself, and the result is not the spectrum times the transmission at the observed-frame
  wavelengths, the grid times \<open>1 + z\<close>: the two differ at the grid point 1000 Angstrom.
\<close>

theorem dla_wavelengths_evaluated:
  "igm_dla_stage demo None (no_attrs\<lparr>self_model_comp := Some distant_burst\<rparr>) distant_burst
       [1, 1, 1, 1] =
     Inr (map2 (*) [1, 1, 1, 1]
            (addAbs (map (\<lambda>w. w * 1) (wavelengths demo)) (2 * 10 ^ 20) 0),
          no_attrs\<lparr>self_model_comp := Some distant_burst\<rparr>)
   \<and> map2 (*) [1, 1, 1, 1] (addAbs (map (\<lambda>w. w * 1) (wavelengths demo)) (2 * 10 ^ 20) 0)
       \<noteq> map2 (*) [1, 1, 1, 1]
            (addAbs (map (\<lambda>w. w * (1 + 1)) (wavelengths demo)) (2 * 10 ^ 20) 0)"
proof -
  define a :: real where "a = 1215.67 * (1.0 / 10 ^ 8) * (6.265 * 10 ^ 8) / (4.0 * pi * 1)"
  define C :: real where "C = sqrt pi * (4.8032 / 10 ^ 10) ^ 2 * 0.416 * 1215.67 * (1 / 10 ^ 8)
               / (9.1095 / 10 ^ 28) / (2.998 * 10 ^ 10) / 1 * (2 * 10 ^ 20)"
  define x1 :: real where "x1 = (1000 / (0 + 1.0) - 1215.67) / (1 / (2.998 * 10 ^ 10) * 1215.67) + 0.01"
  define x2 :: real where "x2 = (2000 / (0 + 1.0) - 1215.67) / (1 / (2.998 * 10 ^ 10) * 1215.67) + 0.01"
  have run: "igm_dla_stage demo None (no_attrs\<lparr>self_model_comp := Some distant_burst\<rparr>)
       distant_burst [1, 1, 1, 1] =
     Inr (map2 (*) [1, 1, 1, 1]
            (addAbs (map (\<lambda>w. w * 1) (wavelengths demo)) (2 * 10 ^ 20) 0),
          no_attrs\<lparr>self_model_comp := Some distant_burst\<rparr>)"
    by (simp add: igm_dla_stage_def getitem_def as_num_def get_num_def subscript_def
        distant_burst_def demo_def no_attrs_def)
  have w: "wavelengths demo = [800, 1000, 1200, 1400]" by (simp add: demo_def)
  have Cpos: "0 < C" by (simp add: C_def)
  have "H a x2 < H a x1"
  proof (rule H_far_apart)
    show "sqrt pi \<le> a" unfolding a_def by (rule damping_large)
    show "10 \<le> x1 ^ 2" by (simp add: x1_def power2_eq_square)
    show "4 * x1 ^ 2 \<le> x2 ^ 2" by (simp add: x1_def x2_def power2_eq_square)
  qed
  then have "H a x1 \<noteq> H a x2" by simp
  then have ne: "exp (- (C * H a x1)) \<noteq> exp (- (C * H a x2))" using Cpos by simp
  have e1: "addAbs (map (\<lambda>w. w * 1) (wavelengths demo)) (2 * 10 ^ 20) 0 ! 1 = exp (- (C * H a x1))"
    by (simp add: addAbs_def Let_def w C_def a_def x1_def)
  have e2: "addAbs (map (\<lambda>w. w * (1 + 1)) (wavelengths demo)) (2 * 10 ^ 20) 0 ! 1
      = exp (- (C * H a x2))"
    by (simp add: addAbs_def Let_def w C_def a_def x2_def)
  have l1: "length (addAbs (map (\<lambda>w. w * 1) (wavelengths demo)) (2 * 10 ^ 20) 0) = 4"
    and l2: "length (addAbs (map (\<lambda>w. w * (1 + 1)) (wavelengths demo)) (2 * 10 ^ 20) 0) = 4"
    by (simp_all add: addAbs_def Let_def w)
  have "map2 (*) [1, 1, 1, 1] (addAbs (map (\<lambda>w. w * 1) (wavelengths demo)) (2 * 10 ^ 20) 0) ! 1
      \<noteq> map2 (*) [1, 1, 1, 1]
            (addAbs (map (\<lambda>w. w * (1 + 1)) (wavelengths demo)) (2 * 10 ^ 20) 0) ! 1"
    using ne e1 e2 l1 l2 by simp
  then have "map2 (*) [1, 1, 1, 1] (addAbs (map (\<lambda>w. w * 1) (wavelengths demo)) (2 * 10 ^ 20) 0)
      \<noteq> map2 (*) [1, 1, 1, 1]
            (addAbs (map (\<lambda>w. w * (1 + 1)) (wavelengths demo)) (2 * 10 ^ 20) 0)"
    by metis
  with run show ?thesis by simp
qed

end
